theory Spec2Isabelle
  imports Complex_Main
begin

section \<open>Data model\<close>

text \<open>
  Strings of the program are lists of characters; \<open>length\<close> is the \<open>.length\<close> of the
  source, \<open>take n\<close> is \<open>substring(0, n)\<close> and \<open>@\<close> is string concatenation.
\<close>

text \<open>
  Modelled from the spec: the types \<open>DocumentContextEntry\<close> and \<open>MCPContext\<close> of
  \<open>integrations/mcp/types\<close>, which the storage service and the clients import. The source
  tests \<open>context.documentContext\<close> for presence before using it, so the field is optional.
\<close>

record DocumentContextEntry =
  documentId :: string
  documentName :: string
  documentType :: string
  content :: string

record MCPContext =
  conversationId :: string
  documentContext :: "DocumentContextEntry list option"
  messageHistory :: "(string \<times> string) list"
  modelPreference :: "string option"
  metisActive :: bool

text \<open>The documents of a context, none when the field is absent.\<close>

definition contextDocuments :: "MCPContext \<Rightarrow> DocumentContextEntry list" where
  "contextDocuments context = (case documentContext context of Some docs \<Rightarrow> docs | None \<Rightarrow> [])"

text \<open>
  Errors thrown in the source: \<open>new Error(message)\<close>, the \<open>DOMException\<close> of the storage
  backend (identified by its \<open>name\<close>) and the \<open>SyntaxError\<close> of \<open>JSON.parse\<close>.
\<close>

datatype js_error = Error string | DOMException string | SyntaxError

definition isQuotaExceeded :: "js_error \<Rightarrow> bool" where
  "isQuotaExceeded error = (case error of DOMException name \<Rightarrow> name = ''QuotaExceededError'' | _ \<Rightarrow> False)"

subsection \<open>Serialized values\<close>

text \<open>
  The backend stores strings. A stored string is either the result of \<open>JSON.stringify\<close> on a
  context or a raw string (a document's content stored on its own). \<open>JSON.parse\<close> gives back
  the context that was serialized. A raw string stands for a string that is no JSON text, on
  which \<open>JSON.parse\<close> throws; a raw string that happens to be JSON text (\<open>{}\<close>, say, which
  \<open>JSON.parse\<close> accepts) is not told apart from it, so the properties below speak of what is
  parsed only for stored values that are serialized contexts.
\<close>

datatype item = JSON MCPContext | Raw string

definition JSON_parse :: "item \<Rightarrow> js_error + MCPContext" where
  "JSON_parse s = (case s of JSON c \<Rightarrow> Inr c | Raw _ \<Rightarrow> Inl SyntaxError)"

text \<open>The text of a stored value, where the source uses it as a plain string.\<close>

text \<open>
  A string as \<open>JSON.stringify\<close> writes it: between double quotes, with the double quote, the
  backslash and the control characters (those below \<open>0x20\<close>) escaped.
\<close>

definition hexDigit :: "nat \<Rightarrow> char" where
  "hexDigit n = ''0123456789abcdef'' ! n"

definition escaped :: "char \<Rightarrow> string" where
  "escaped c =
     (if c = CHR ''\"'' \<or> c = CHR 0x5C then [CHR 0x5C, c]
      else if c = CHR 0x08 then [CHR 0x5C, CHR ''b'']
      else if c = CHR 0x09 then [CHR 0x5C, CHR ''t'']
      else if c = CHR 0x0A then [CHR 0x5C, CHR ''n'']
      else if c = CHR 0x0C then [CHR 0x5C, CHR ''f'']
      else if c = CHR 0x0D then [CHR 0x5C, CHR ''r'']
      else if \<not> digit5 c \<and> \<not> digit6 c \<and> \<not> digit7 c
        then CHR 0x5C # ''u00'' @ [if digit4 c then CHR ''1'' else CHR ''0'',
               hexDigit (of_bool (digit0 c) + 2 * of_bool (digit1 c) + 4 * of_bool (digit2 c) + 8 * of_bool (digit3 c))]
      else [c])"

definition quoted :: "string \<Rightarrow> string" where
  "quoted s = ''\"'' @ concat (map escaped s) @ ''\"''"

fun commaSep :: "string list \<Rightarrow> string" where
  "commaSep [] = []"
| "commaSep [x] = x"
| "commaSep (x # y # ys) = x @ '','' @ commaSep (y # ys)"

definition entryText :: "DocumentContextEntry \<Rightarrow> string" where
  "entryText d = ''{\"documentId\":'' @ quoted (documentId d) @ '',\"documentName\":'' @ quoted (documentName d)
     @ '',\"documentType\":'' @ quoted (documentType d) @ '',\"content\":'' @ quoted (content d) @ ''}''"

definition contextText :: "MCPContext \<Rightarrow> string" where
  "contextText c = ''{\"conversationId\":'' @ quoted (conversationId c)
     @ (case documentContext c of None \<Rightarrow> [] | Some ds \<Rightarrow> '',\"documentContext\":['' @ commaSep (map entryText ds) @ '']'')
     @ '',\"messageHistory\":['' @ commaSep (map (\<lambda>(r, m). ''{\"role\":'' @ quoted r @ '',\"message\":'' @ quoted m @ ''}'') (messageHistory c)) @ '']''
     @ (case modelPreference c of None \<Rightarrow> [] | Some m \<Rightarrow> '',\"modelPreference\":'' @ quoted m)
     @ '',\"metisActive\":'' @ (if metisActive c then ''true'' else ''false'') @ ''}''"

definition itemText :: "item \<Rightarrow> string" where
  "itemText s = (case s of JSON c \<Rightarrow> contextText c | Raw t \<Rightarrow> t)"

text \<open>\<open>!value\<close> on a string read from the backend: \<open>null\<close> and the empty string are falsy.\<close>

definition missing :: "item option \<Rightarrow> bool" where
  "missing v = (case v of None \<Rightarrow> True | Some (Raw t) \<Rightarrow> t = [] | Some (JSON _) \<Rightarrow> False)"

subsection \<open>The storage backend\<close>

text \<open>
  The \<open>Storage\<close> object handed to the service (\<open>options.storage\<close>, or the browser's
  \<open>localStorage\<close>): its three operations over a backend state \<open>'s\<close>. \<open>setItem\<close> and
  \<open>removeItem\<close> may throw; a call that throws leaves the state as it was.
\<close>

record 's Storage =
  getItem :: "'s \<Rightarrow> string \<Rightarrow> item option"
  setItem :: "'s \<Rightarrow> string \<Rightarrow> item \<Rightarrow> js_error + 's"
  removeItem :: "'s \<Rightarrow> string \<Rightarrow> js_error + 's"

record 's StorageOptions =
  opt_storage :: "'s Storage option"
  opt_keyPrefix :: "string option"
  opt_maxDocumentSize :: "rat option"

record 's LocalStorageService =
  storage :: "'s Storage option"
  keyPrefix :: string
  maxDocumentSize :: rat

text \<open>Console output of the storage service that the properties below refer to.\<close>

datatype console =
    StorageNotAvailable
  | DocumentSizes "(string \<times> nat) list"
  | SavedWithoutDocuments string
  | ErrorSaving js_error
  | DocumentCountMismatch nat nat
  | SavedWithDocuments nat
  | ContentLengthMismatch string nat nat
  | ContentLossDetected
  | QuotaExceededWarning
  | SavedReducedContent
  | ReducedSaveFailed js_error
  | SavedWithoutDocumentContent
  | AllAttemptsFailed js_error
  | StoredSeparately string string
  | ContextSaved string string
  | SavedMinimal string
  | MinimalSaveFailed js_error

section \<open>LocalStorageService, truncating variant\<close>

text \<open>
  The constructor: \<open>a || b\<close> takes \<open>b\<close> when \<open>a\<close> is undefined, empty or zero. The ceiling
  is a number of the source (here a rational), so any number other than zero is kept as it
  is given, also a negative one or one that is not whole.
\<close>

definition newLocalStorageService :: "'s Storage option \<Rightarrow> 's StorageOptions \<Rightarrow> 's LocalStorageService" where
  "newLocalStorageService localStorage options =
     \<lparr> storage = (case opt_storage options of Some s \<Rightarrow> Some s | None \<Rightarrow> localStorage),
       keyPrefix = (case opt_keyPrefix options of Some p \<Rightarrow> if p = [] then ''mcp-context-'' else p
                    | None \<Rightarrow> ''mcp-context-''),
       maxDocumentSize = (case opt_maxDocumentSize options of Some n \<Rightarrow> if n = 0 then 1024 * 1024 else n
                          | None \<Rightarrow> 1024 * 1024) \<rparr>"

text \<open>\<open>s.substring(0, n)\<close> for a number \<open>n\<close>: the fraction of \<open>n\<close> is dropped and a negative
  \<open>n\<close> counts as zero.\<close>

definition substring0 :: "rat \<Rightarrow> string \<Rightarrow> string" where
  "substring0 n s = take (nat \<lfloor>n\<rfloor>) s"

definition truncationMarker :: string where
  "truncationMarker = CHR 0x0A # ''[CONTENT TRUNCATED DUE TO SIZE LIMITATIONS]''"

definition prepareDocument :: "rat \<Rightarrow> DocumentContextEntry \<Rightarrow> DocumentContextEntry" where
  "prepareDocument maxSize doc =
     (if content doc = [] then doc\<lparr>content := ''[No content available]''\<rparr>
      else if of_nat (length (content doc)) > maxSize
        then doc\<lparr>content := substring0 maxSize (content doc) @ truncationMarker\<rparr>
      else doc)"

definition prepareContextForStorage :: "'s LocalStorageService \<Rightarrow> MCPContext \<Rightarrow> MCPContext" where
  "prepareContextForStorage svc context =
     (case documentContext context of
        None \<Rightarrow> context
      | Some docs \<Rightarrow> context\<lparr>documentContext := Some (map (prepareDocument (maxDocumentSize svc)) docs)\<rparr>)"

text \<open>The content-integrity loop of \<open>verifyStoredContext\<close>: one message per saved document whose
  length differs from the first original document with the same id.\<close>

definition lengthMismatches :: "DocumentContextEntry list \<Rightarrow> DocumentContextEntry list \<Rightarrow> console list" where
  "lengthMismatches originalDocs savedDocs =
     concat (map (\<lambda>doc.
        case find (\<lambda>d. documentId d = documentId doc) originalDocs of
          None \<Rightarrow> []
        | Some originalDoc \<Rightarrow>
            if length (content originalDoc) \<noteq> length (content doc)
            then [ContentLengthMismatch (documentName doc) (length (content originalDoc)) (length (content doc))]
            else []) savedDocs)"

definition verifyStoredContext :: "'s Storage \<Rightarrow> 's \<Rightarrow> string \<Rightarrow> MCPContext \<Rightarrow> js_error + console list" where
  "verifyStoredContext b st key originalContext =
     (let savedItem = getItem b st key in
      if missing savedItem
      then Inl (Error (''Context was not saved properly: storage key '' @ key @ '' not found''))
      else case JSON_parse (the savedItem) of
             Inl e \<Rightarrow> Inl e
           | Inr savedContext \<Rightarrow>
               (case (documentContext savedContext, documentContext originalContext) of
                  (Some savedDocs, Some originalDocs) \<Rightarrow>
                    if length originalDocs \<noteq> length savedDocs
                    then Inr [DocumentCountMismatch (length originalDocs) (length savedDocs)]
                    else let faults = lengthMismatches originalDocs savedDocs in
                      Inr (SavedWithDocuments (length savedDocs) # faults
                           @ (if faults \<noteq> [] then [ContentLossDetected] else []))
                | _ \<Rightarrow> Inr []))"

definition removedContentPlaceholder :: "DocumentContextEntry \<Rightarrow> string" where
  "removedContentPlaceholder doc =
     ''[Content removed due to storage limitations. Document: '' @ documentName doc @ '']''"

definition minimalContext :: "MCPContext \<Rightarrow> MCPContext" where
  "minimalContext context =
     (case documentContext context of
        None \<Rightarrow> context
      | Some docs \<Rightarrow>
          context\<lparr>documentContext := Some (map (\<lambda>doc. doc\<lparr>content := removedContentPlaceholder doc\<rparr>) docs)\<rparr>)"

definition bareContext :: "MCPContext \<Rightarrow> MCPContext" where
  "bareContext context = context\<lparr>documentContext := Some []\<rparr>"

definition handleStorageError ::
  "'s LocalStorageService \<Rightarrow> 's Storage \<Rightarrow> 's \<Rightarrow> string \<Rightarrow> MCPContext \<Rightarrow> js_error \<Rightarrow> 's \<times> console list" where
  "handleStorageError svc b st convId context error =
     (if isQuotaExceeded error then
        (case setItem b st (keyPrefix svc @ convId) (JSON (minimalContext context)) of
           Inr st' \<Rightarrow> (st', [QuotaExceededWarning, SavedReducedContent])
         | Inl fallbackError \<Rightarrow>
             (case setItem b st (keyPrefix svc @ convId) (JSON (bareContext context)) of
                Inr st' \<Rightarrow> (st', [QuotaExceededWarning, ReducedSaveFailed fallbackError, SavedWithoutDocumentContent])
              | Inl lastError \<Rightarrow>
                  (st, [QuotaExceededWarning, ReducedSaveFailed fallbackError, AllAttemptsFailed lastError])))
      else (st, []))"

text \<open>The \<open>try\<close> block of \<open>saveContext\<close>: the state it reached, its console output and the
  error it threw, if any.\<close>

definition saveContext_try ::
  "'s LocalStorageService \<Rightarrow> 's Storage \<Rightarrow> 's \<Rightarrow> string \<Rightarrow> MCPContext \<Rightarrow> 's \<times> console list \<times> js_error option" where
  "saveContext_try svc b st convId context =
     (let key = keyPrefix svc @ convId in
      if (case documentContext context of Some docs \<Rightarrow> docs \<noteq> [] | None \<Rightarrow> False) then
        (let contextForStorage = prepareContextForStorage svc context;
             docSizes = map (\<lambda>doc. (documentName doc, length (content doc)))
                          (the (documentContext contextForStorage))
         in case setItem b st key (JSON contextForStorage) of
              Inl e \<Rightarrow> (st, [DocumentSizes docSizes], Some e)
            | Inr st' \<Rightarrow>
                (case verifyStoredContext b st' key contextForStorage of
                   Inl e \<Rightarrow> (st', [DocumentSizes docSizes], Some e)
                 | Inr checks \<Rightarrow> (st', DocumentSizes docSizes # checks, None)))
      else
        (case setItem b st key (JSON context) of
           Inl e \<Rightarrow> (st, [], Some e)
         | Inr st' \<Rightarrow> (st', [SavedWithoutDocuments convId], None)))"

definition saveContext :: "'s LocalStorageService \<Rightarrow> 's \<Rightarrow> string \<Rightarrow> MCPContext \<Rightarrow> 's \<times> console list" where
  "saveContext svc st convId context =
     (case storage svc of
        None \<Rightarrow> (st, [StorageNotAvailable])
      | Some b \<Rightarrow>
          (case saveContext_try svc b st convId context of
             (st', out, None) \<Rightarrow> (st', out)
           | (st', out, Some error) \<Rightarrow>
               (case handleStorageError svc b st' convId context error of
                  (st'', out') \<Rightarrow> (st'', out @ ErrorSaving error # out'))))"

definition loadContext :: "'s LocalStorageService \<Rightarrow> 's \<Rightarrow> string \<Rightarrow> MCPContext option" where
  "loadContext svc st convId =
     (case storage svc of
        None \<Rightarrow> None
      | Some b \<Rightarrow>
          (let storedContext = getItem b st (keyPrefix svc @ convId) in
           if missing storedContext then None
           else case JSON_parse (the storedContext) of
                  Inl e \<Rightarrow> None
                | Inr parsedContext \<Rightarrow> Some parsedContext))"

definition removeContext :: "'s LocalStorageService \<Rightarrow> 's \<Rightarrow> string \<Rightarrow> 's \<times> bool" where
  "removeContext svc st convId =
     (case storage svc of
        None \<Rightarrow> (st, False)
      | Some b \<Rightarrow>
          (case removeItem b st (keyPrefix svc @ convId) of
             Inl e \<Rightarrow> (st, False)
           | Inr st' \<Rightarrow>
               (let itemExists = (getItem b st' (keyPrefix svc @ convId) \<noteq> None) in
                if itemExists then (st', False) else (st', True))))"

section \<open>LocalStorageService, chunking variant\<close>

text \<open>
  The second \<open>LocalStorageService\<close> of the source stores the content of a large document
  under a key of its own and leaves a reference in the main entry. Its operations carry the
  suffix \<open>_chunking\<close> here.
\<close>

definition newLocalStorageService_chunking :: "'s Storage option \<Rightarrow> 's StorageOptions \<Rightarrow> 's LocalStorageService" where
  "newLocalStorageService_chunking localStorage options =
     \<lparr> storage = (case opt_storage options of Some s \<Rightarrow> Some s | None \<Rightarrow> localStorage),
       keyPrefix = (case opt_keyPrefix options of Some p \<Rightarrow> if p = [] then ''mcp_context_'' else p
                    | None \<Rightarrow> ''mcp_context_''),
       maxDocumentSize = (case opt_maxDocumentSize options of Some n \<Rightarrow> if n = 0 then 1024 * 1024 else n
                          | None \<Rightarrow> 1024 * 1024) \<rparr>"

text \<open>Decimal rendering of a number inside a template string.\<close>

function decimal :: "nat \<Rightarrow> string" where
  "decimal n = (if n < 10 then [''0123456789'' ! n] else decimal (n div 10) @ [''0123456789'' ! (n mod 10)])"
  by pat_completeness auto
termination
  by (relation "measure id") auto

declare decimal.simps [simp del]

definition docRefPrefix :: string where
  "docRefPrefix = ''__DOC_REF__''"

text \<open>\<open>doc.content && doc.content.startsWith('__DOC_REF__')\<close>\<close>

definition isDocRef :: "string \<Rightarrow> bool" where
  "isDocRef c = (c \<noteq> [] \<and> take (length docRefPrefix) c = docRefPrefix)"

text \<open>\<open>doc.content.replace('__DOC_REF__', '')\<close> on a content that starts with the marker.\<close>

definition docRefKey :: "string \<Rightarrow> string" where
  "docRefKey c = drop (length docRefPrefix) c"

text \<open>
  The loop of \<open>saveContext\<close> over the documents of the copy: a document longer than half the
  ceiling is written under its own key and replaced by a reference. The loop stops at the
  first write that throws, with the writes done so far in place.
\<close>

fun storeLargeDocuments ::
  "'s Storage \<Rightarrow> rat \<Rightarrow> string \<Rightarrow> 's \<Rightarrow> DocumentContextEntry list
     \<Rightarrow> 's \<times> console list \<times> (js_error + DocumentContextEntry list)" where
  "storeLargeDocuments b maxSize base st [] = (st, [], Inr [])"
| "storeLargeDocuments b maxSize base st (doc # docs) =
     (if content doc \<noteq> [] \<and> of_nat (length (content doc)) > maxSize / 2 then
        (let docKey = base @ ''_doc_'' @ documentId doc in
         case setItem b st docKey (Raw (content doc)) of
           Inl e \<Rightarrow> (st, [], Inl e)
         | Inr st' \<Rightarrow>
             (case storeLargeDocuments b maxSize base st' docs of
                (st'', out, r) \<Rightarrow>
                  (st'', StoredSeparately (documentName doc) docKey # out,
                   map_sum id ((#) (doc\<lparr>content := docRefPrefix @ docKey\<rparr>)) r)))
      else
        (case storeLargeDocuments b maxSize base st docs of
           (st'', out, r) \<Rightarrow> (st'', out, map_sum id ((#) doc) r)))"

definition tooLargePlaceholder :: "DocumentContextEntry \<Rightarrow> string" where
  "tooLargePlaceholder doc =
     ''Content too large for storage ('' @ decimal (length (content doc)) @ '' bytes)''"

definition minimalContext_chunking :: "MCPContext \<Rightarrow> MCPContext" where
  "minimalContext_chunking context =
     (case documentContext context of
        None \<Rightarrow> context
      | Some docs \<Rightarrow>
          context\<lparr>documentContext := Some (map (\<lambda>doc. doc\<lparr>content := tooLargePlaceholder doc\<rparr>) docs)\<rparr>)"

definition saveContext_chunking_try ::
  "'s LocalStorageService \<Rightarrow> 's Storage \<Rightarrow> 's \<Rightarrow> string \<Rightarrow> MCPContext \<Rightarrow> 's \<times> console list \<times> js_error option" where
  "saveContext_chunking_try svc b st convId context =
     (let key = keyPrefix svc @ convId in
      if (case documentContext context of Some docs \<Rightarrow> docs \<noteq> [] | None \<Rightarrow> False) then
        (case storeLargeDocuments b (maxDocumentSize svc) key st (the (documentContext context)) of
           (st', out, Inl e) \<Rightarrow> (st', out, Some e)
         | (st', out, Inr docs') \<Rightarrow>
             (case setItem b st' key (JSON (context\<lparr>documentContext := Some docs'\<rparr>)) of
                Inl e \<Rightarrow> (st', out, Some e)
              | Inr st'' \<Rightarrow> (st'', out @ [ContextSaved convId key], None)))
      else
        (case setItem b st key (JSON context) of
           Inl e \<Rightarrow> (st, [], Some e)
         | Inr st' \<Rightarrow> (st', [ContextSaved convId key], None)))"

definition saveContext_chunking :: "'s LocalStorageService \<Rightarrow> 's \<Rightarrow> string \<Rightarrow> MCPContext \<Rightarrow> 's \<times> console list" where
  "saveContext_chunking svc st convId context =
     (case storage svc of
        None \<Rightarrow> (st, [StorageNotAvailable])
      | Some b \<Rightarrow>
          (case saveContext_chunking_try svc b st convId context of
             (st', out, None) \<Rightarrow> (st', out)
           | (st', out, Some error) \<Rightarrow>
               (if isQuotaExceeded error then
                  (case setItem b st' (keyPrefix svc @ convId @ ''_minimal'') (JSON (minimalContext_chunking context)) of
                     Inr st'' \<Rightarrow> (st'', out @ [ErrorSaving error, SavedMinimal convId])
                   | Inl e \<Rightarrow> (st', out @ [ErrorSaving error, MinimalSaveFailed e]))
                else (st', out @ [ErrorSaving error]))))"

text \<open>The loop of \<open>loadContext\<close> that replaces each reference by the content stored under its key.\<close>

definition resolveDocRef :: "'s Storage \<Rightarrow> 's \<Rightarrow> DocumentContextEntry \<Rightarrow> DocumentContextEntry" where
  "resolveDocRef b st doc =
     (if isDocRef (content doc) then
        (let docKey = docRefKey (content doc); docContent = getItem b st docKey in
         if \<not> missing docContent then doc\<lparr>content := itemText (the docContent)\<rparr>
         else doc\<lparr>content := ''Content reference lost: '' @ docKey\<rparr>)
      else doc)"

definition loadContext_chunking :: "'s LocalStorageService \<Rightarrow> 's \<Rightarrow> string \<Rightarrow> MCPContext option" where
  "loadContext_chunking svc st convId =
     (case storage svc of
        None \<Rightarrow> None
      | Some b \<Rightarrow>
          (let contextJson = getItem b st (keyPrefix svc @ convId) in
           if missing contextJson then None
           else case JSON_parse (the contextJson) of
                  Inl e \<Rightarrow> None
                | Inr context \<Rightarrow>
                    (case documentContext context of
                       None \<Rightarrow> Some context
                     | Some docs \<Rightarrow> Some (context\<lparr>documentContext := Some (map (resolveDocRef b st) docs)\<rparr>))))"

text \<open>The loop of \<open>removeContext\<close> that removes the entries the references point to; it stops
  at the first removal that throws.\<close>

fun removeDocRefs :: "'s Storage \<Rightarrow> 's \<Rightarrow> DocumentContextEntry list \<Rightarrow> 's \<times> js_error option" where
  "removeDocRefs b st [] = (st, None)"
| "removeDocRefs b st (doc # docs) =
     (if isDocRef (content doc) then
        (case removeItem b st (docRefKey (content doc)) of
           Inl e \<Rightarrow> (st, Some e)
         | Inr st' \<Rightarrow> removeDocRefs b st' docs)
      else removeDocRefs b st docs)"

definition removeContext_chunking :: "'s LocalStorageService \<Rightarrow> 's \<Rightarrow> string \<Rightarrow> 's \<times> bool" where
  "removeContext_chunking svc st convId =
     (case storage svc of
        None \<Rightarrow> (st, False)
      | Some b \<Rightarrow>
          (let key = keyPrefix svc @ convId;
               contextJson = getItem b st key
           in case (if \<not> missing contextJson then
                      (case JSON_parse (the contextJson) of
                         Inl e \<Rightarrow> (st, Some e)
                       | Inr context \<Rightarrow>
                           (case documentContext context of
                              None \<Rightarrow> (st, None)
                            | Some docs \<Rightarrow> removeDocRefs b st docs))
                    else (st, None)) of
                (st1, Some e) \<Rightarrow> (st1, False)
              | (st1, None) \<Rightarrow>
                  (case removeItem b st1 key of
                     Inl e \<Rightarrow> (st1, False)
                   | Inr st2 \<Rightarrow>
                       (case removeItem b st2 (key @ ''_minimal'') of
                          Inl e \<Rightarrow> (st2, False)
                        | Inr st3 \<Rightarrow> (st3, True)))))"

section \<open>Change notification\<close>

text \<open>
  The browser window as far as the notification uses it: the listeners registered per event
  type (each identified by a number), the events dispatched so far and the deliveries made,
  in order. \<open>dispatchEvent\<close> hands the event to every listener registered for its type.
\<close>

datatype jsval = Str string | Num nat

record CustomEvent =
  eventType :: string
  detail :: "(string \<times> jsval) list"

record Window =
  listeners :: "(string \<times> nat) list"
  dispatched :: "CustomEvent list"
  delivered :: "(nat \<times> CustomEvent) list"

definition dispatchEvent :: "CustomEvent \<Rightarrow> Window \<Rightarrow> Window" where
  "dispatchEvent event w =
     w\<lparr>dispatched := dispatched w @ [event],
       delivered := delivered w @ map (\<lambda>(t, l). (l, event)) (filter (\<lambda>(t, l). t = eventType event) (listeners w))\<rparr>"

text \<open>\<open>FileWatcher.notifyDocumentContextChange\<close>; \<open>now\<close> is the value of \<open>Date.now()\<close> and
  \<open>None\<close> stands for an environment without a \<open>window\<close>.\<close>

definition notifyDocumentContextChange :: "nat \<Rightarrow> Window option \<Rightarrow> Window option" where
  "notifyDocumentContextChange now window =
     (case window of
        None \<Rightarrow> None
      | Some w \<Rightarrow> Some (dispatchEvent \<lparr>eventType = ''documentContextUpdated'', detail = [(''timestamp'', Num now)]\<rparr> w))"

section \<open>The context client\<close>

text \<open>
  The \<open>ContextService\<close> class is imported by the clients from \<open>integrations/mcp/context\<close>; the
  clients below take its constructor and the methods they call as a parameter, over the state
  \<open>'c\<close> the service acts on. A method returns the state it leaves and the error it threw,
  if any.
\<close>

record 'c ContextService =
  newContextService :: "bool \<Rightarrow> 'c"
  cs_addDocumentToContext :: "string \<Rightarrow> string \<Rightarrow> string \<Rightarrow> string \<Rightarrow> 'c \<Rightarrow> 'c \<times> js_error option"
  cs_removeDocumentFromContext :: "string \<Rightarrow> 'c \<Rightarrow> 'c \<times> (js_error + bool)"
  cs_setMetisActive :: "bool \<Rightarrow> 'c \<Rightarrow> 'c"

record 'c MCPContextClient =
  contextService :: 'c
  initialized :: bool

definition newMCPContextClient :: "'c \<Rightarrow> 'c MCPContextClient" where
  "newMCPContextClient service = \<lparr> contextService = service, initialized = False \<rparr>"

definition emptyContentError :: "string \<Rightarrow> js_error" where
  "emptyContentError docName = Error (''Cannot add document '' @ docName @ '': Content is empty'')"

text \<open>\<open>MCPContextClient.addDocumentToContext\<close>: the client and the window it leaves, and the
  error it rethrows, if any.\<close>

definition addDocumentToContext ::
  "'c ContextService \<Rightarrow> nat \<Rightarrow> string \<Rightarrow> string \<Rightarrow> string \<Rightarrow> string
     \<Rightarrow> 'c MCPContextClient \<times> Window option \<Rightarrow> ('c MCPContextClient \<times> Window option) \<times> js_error option" where
  "addDocumentToContext cs now docId docName docType docContent world =
     (case world of (client, window) \<Rightarrow>
        if docContent = [] then ((client, window), Some (emptyContentError docName))
        else
          (case cs_addDocumentToContext cs docId docName docType docContent (contextService client) of
             (service', Some e) \<Rightarrow> ((client\<lparr>contextService := service'\<rparr>, window), Some e)
           | (service', None) \<Rightarrow>
               ((client\<lparr>contextService := service'\<rparr>, notifyDocumentContextChange now window), None)))"

text \<open>\<open>MCPContextClient.removeDocumentFromContext\<close>: an error of the service is caught and
  reported as \<open>false\<close>.\<close>

definition removeDocumentFromContext ::
  "'c ContextService \<Rightarrow> nat \<Rightarrow> string
     \<Rightarrow> 'c MCPContextClient \<times> Window option \<Rightarrow> ('c MCPContextClient \<times> Window option) \<times> bool" where
  "removeDocumentFromContext cs now docId world =
     (case world of (client, window) \<Rightarrow>
        (case cs_removeDocumentFromContext cs docId (contextService client) of
           (service', Inl e) \<Rightarrow> ((client\<lparr>contextService := service'\<rparr>, window), False)
         | (service', Inr removed) \<Rightarrow>
             if removed
             then ((client\<lparr>contextService := service'\<rparr>, notifyDocumentContextChange now window), True)
             else ((client\<lparr>contextService := service'\<rparr>, window), False)))"

definition setMetisActive :: "'c ContextService \<Rightarrow> bool \<Rightarrow> 'c MCPContextClient \<Rightarrow> 'c MCPContextClient" where
  "setMetisActive cs active client = client\<lparr>contextService := cs_setMetisActive cs active (contextService client)\<rparr>"

text \<open>A run of calls on the client, in order, each with the value of \<open>Date.now()\<close> at the
  call, by a caller that catches what \<open>addDocumentToContext\<close> throws and goes on: the client
  and the window it leaves.\<close>

datatype clientCall = AddDocument nat string string string string | RemoveDocument nat string

fun clientCalls ::
  "'c ContextService \<Rightarrow> clientCall list \<Rightarrow> 'c MCPContextClient \<times> Window option
     \<Rightarrow> 'c MCPContextClient \<times> Window option" where
  "clientCalls cs [] world = world"
| "clientCalls cs (AddDocument now docId docName docType docContent # rest) world =
     clientCalls cs rest (fst (addDocumentToContext cs now docId docName docType docContent world))"
| "clientCalls cs (RemoveDocument now docId # rest) world =
     clientCalls cs rest (fst (removeDocumentFromContext cs now docId world))"

section \<open>The clients and their singleton\<close>

record MCPClientOptions =
  opt_serverUrl :: "string option"
  opt_authToken :: "string option"
  opt_metisActive :: "bool option"

text \<open>\<open>options.metisActive || false\<close>\<close>

definition metisActiveOrFalse :: "MCPClientOptions \<Rightarrow> bool" where
  "metisActiveOrFalse options = (case opt_metisActive options of Some a \<Rightarrow> a | None \<Rightarrow> False)"

text \<open>
  The \<open>MCPClient\<close> class that holds the context methods itself. \<open>'d\<close> is the drive service,
  whose constructor is a parameter as well. Its \<open>addDocumentToContext\<close> also shows a toast
  when it fails.
\<close>

record ('c, 'd) MCPClient =
  serverUrl :: string
  authToken :: "string option"
  mc_contextService :: 'c
  driveService :: 'd
  mc_initialized :: bool

definition newMCPClient :: "'c ContextService \<Rightarrow> 'd \<Rightarrow> MCPClientOptions \<Rightarrow> ('c, 'd) MCPClient" where
  "newMCPClient cs newGoogleDriveService options =
     \<lparr> serverUrl = (case opt_serverUrl options of Some u \<Rightarrow> if u = [] then ''https://mcp-gdrive-server.example.com'' else u
                    | None \<Rightarrow> ''https://mcp-gdrive-server.example.com''),
       authToken = (case opt_authToken options of Some t \<Rightarrow> if t = [] then None else Some t | None \<Rightarrow> None),
       mc_contextService = newContextService cs (metisActiveOrFalse options),
       driveService = newGoogleDriveService,
       mc_initialized = False \<rparr>"

definition MCPClient_addDocumentToContext ::
  "'c ContextService \<Rightarrow> nat \<Rightarrow> string \<Rightarrow> string \<Rightarrow> string \<Rightarrow> string
     \<Rightarrow> ('c, 'd) MCPClient \<times> Window option \<times> string list
     \<Rightarrow> (('c, 'd) MCPClient \<times> Window option \<times> string list) \<times> js_error option" where
  "MCPClient_addDocumentToContext cs now docId docName docType docContent world =
     (case world of (client, window, toasts) \<Rightarrow>
        if docContent = []
        then ((client, window, toasts @ [''Failed to add document '' @ docName]), Some (emptyContentError docName))
        else
          (case cs_addDocumentToContext cs docId docName docType docContent (mc_contextService client) of
             (service', Some e) \<Rightarrow>
               ((client\<lparr>mc_contextService := service'\<rparr>, window, toasts @ [''Failed to add document '' @ docName]), Some e)
           | (service', None) \<Rightarrow>
               ((client\<lparr>mc_contextService := service'\<rparr>, notifyDocumentContextChange now window, toasts), None)))"

definition MCPClient_setMetisActive :: "'c ContextService \<Rightarrow> bool \<Rightarrow> ('c, 'd) MCPClient \<Rightarrow> ('c, 'd) MCPClient" where
  "MCPClient_setMetisActive cs active client =
     client\<lparr>mc_contextService := cs_setMetisActive cs active (mc_contextService client)\<rparr>"

text \<open>\<open>EnhancedMCPClient\<close>: the base client together with a context client of its own.\<close>

record ('c, 'd) EnhancedMCPClient =
  base :: "('c, 'd) MCPClient"
  contextClient :: "'c MCPContextClient"

definition newEnhancedMCPClient :: "'c ContextService \<Rightarrow> 'd \<Rightarrow> MCPClientOptions \<Rightarrow> ('c, 'd) EnhancedMCPClient" where
  "newEnhancedMCPClient cs newGoogleDriveService options =
     \<lparr> base = newMCPClient cs newGoogleDriveService options,
       contextClient = newMCPContextClient (newContextService cs (metisActiveOrFalse options)) \<rparr>"

definition EnhancedMCPClient_setMetisActive ::
  "'c ContextService \<Rightarrow> bool \<Rightarrow> ('c, 'd) EnhancedMCPClient \<Rightarrow> ('c, 'd) EnhancedMCPClient" where
  "EnhancedMCPClient_setMetisActive cs active client =
     client\<lparr>contextClient := setMetisActive cs active (contextClient client)\<rparr>"

text \<open>
  A module with its \<open>mcpClientInstance\<close> variable. Client objects live in \<open>objects\<close>; a
  reference to one is its position there, so that two references are the same instance
  exactly when they are equal.
\<close>

record 'o Module =
  objects :: "'o list"
  mcpClientInstance :: "nat option"

text \<open>\<open>getMCPClient\<close> of the factory module (it builds an \<open>EnhancedMCPClient\<close>).\<close>

definition getMCPClient ::
  "'c ContextService \<Rightarrow> 'd \<Rightarrow> MCPClientOptions \<Rightarrow> ('c, 'd) EnhancedMCPClient Module
     \<Rightarrow> nat \<times> ('c, 'd) EnhancedMCPClient Module" where
  "getMCPClient cs newGoogleDriveService options m =
     (case mcpClientInstance m of
        None \<Rightarrow>
          (length (objects m),
           m\<lparr>objects := objects m @ [newEnhancedMCPClient cs newGoogleDriveService options],
             mcpClientInstance := Some (length (objects m))\<rparr>)
      | Some r \<Rightarrow>
          (case opt_metisActive options of
             Some active \<Rightarrow>
               (r, m\<lparr>objects := (objects m)[r := EnhancedMCPClient_setMetisActive cs active (objects m ! r)]\<rparr>)
           | None \<Rightarrow> (r, m)))"

text \<open>\<open>getMCPClient\<close> of the module that defines \<open>MCPClient\<close> itself.\<close>

definition MCPClient_getMCPClient ::
  "'c ContextService \<Rightarrow> 'd \<Rightarrow> MCPClientOptions \<Rightarrow> ('c, 'd) MCPClient Module
     \<Rightarrow> nat \<times> ('c, 'd) MCPClient Module" where
  "MCPClient_getMCPClient cs newGoogleDriveService options m =
     (case mcpClientInstance m of
        None \<Rightarrow>
          (length (objects m),
           m\<lparr>objects := objects m @ [newMCPClient cs newGoogleDriveService options],
             mcpClientInstance := Some (length (objects m))\<rparr>)
      | Some r \<Rightarrow>
          (case opt_metisActive options of
             Some active \<Rightarrow>
               (r, m\<lparr>objects := (objects m)[r := MCPClient_setMetisActive cs active (objects m ! r)]\<rparr>)
           | None \<Rightarrow> (r, m)))"

text \<open>A run of calls, one per options value: the references returned and the module left.\<close>

fun getMCPClient_calls ::
  "'c ContextService \<Rightarrow> 'd \<Rightarrow> MCPClientOptions list \<Rightarrow> ('c, 'd) EnhancedMCPClient Module
     \<Rightarrow> nat list \<times> ('c, 'd) EnhancedMCPClient Module" where
  "getMCPClient_calls cs d [] m = ([], m)"
| "getMCPClient_calls cs d (options # rest) m =
     (case getMCPClient cs d options m of
        (r, m') \<Rightarrow> (case getMCPClient_calls cs d rest m' of (rs, m'') \<Rightarrow> (r # rs, m'')))"

fun MCPClient_getMCPClient_calls ::
  "'c ContextService \<Rightarrow> 'd \<Rightarrow> MCPClientOptions list \<Rightarrow> ('c, 'd) MCPClient Module
     \<Rightarrow> nat list \<times> ('c, 'd) MCPClient Module" where
  "MCPClient_getMCPClient_calls cs d [] m = ([], m)"
| "MCPClient_getMCPClient_calls cs d (options # rest) m =
     (case MCPClient_getMCPClient cs d options m of
        (r, m') \<Rightarrow> (case MCPClient_getMCPClient_calls cs d rest m' of (rs, m'') \<Rightarrow> (r # rs, m'')))"

section \<open>The context service\<close>

text \<open>
  Modelled from the spec: the \<open>ContextService\<close> class of \<open>integrations/mcp/context\<close>, which
  is not among the sources (only its callers are). It owns the in-memory context of the
  current conversation, \<open>None\<close> before initialization. Following the spec,
  \<open>addDocumentToContext\<close> fails if content is empty; otherwise it appends an entry
  (rejecting duplicates by documentId), persists the whole context through the storage
  service, and then updates the in-memory state. \<open>removeDocumentFromContext\<close> removes by id
  if present, persists, and returns whether anything was removed. \<open>setMetisActive\<close> sets the
  flag. The state carries the storage service and the state of its backend.
\<close>

record 's ContextServiceState =
  currentContext :: "MCPContext option"
  serviceMetisActive :: bool
  storageService :: "'s LocalStorageService"
  backend :: 's

text \<open>Modelled from the spec: whether the context holds an entry with this documentId.\<close>

definition hasDocument :: "string \<Rightarrow> MCPContext \<Rightarrow> bool" where
  "hasDocument docId context = (find (\<lambda>d. documentId d = docId) (contextDocuments context) \<noteq> None)"

text \<open>Modelled from the spec: \<open>ContextService.addDocumentToContext\<close> (section 4.3).\<close>

definition spec_addDocumentToContext ::
  "string \<Rightarrow> string \<Rightarrow> string \<Rightarrow> string \<Rightarrow> 's ContextServiceState \<Rightarrow> 's ContextServiceState \<times> js_error option" where
  "spec_addDocumentToContext docId docName docType docContent service =
     (if docContent = [] then (service, Some (Error ''EmptyContent''))
      else case currentContext service of
             None \<Rightarrow> (service, Some (Error ''NotInitialized''))
           | Some context \<Rightarrow>
               if hasDocument docId context then (service, Some (Error ''DuplicateDocument''))
               else
                 (let context' = context\<lparr>documentContext := Some (contextDocuments context @
                        [\<lparr>documentId = docId, documentName = docName, documentType = docType, content = docContent\<rparr>])\<rparr>;
                      persisted = saveContext (storageService service) (backend service) (conversationId context') context'
                  in (service\<lparr>backend := fst persisted, currentContext := Some context'\<rparr>, None)))"

text \<open>Modelled from the spec: \<open>ContextService.removeDocumentFromContext\<close> (section 4.3).\<close>

definition spec_removeDocumentFromContext ::
  "string \<Rightarrow> 's ContextServiceState \<Rightarrow> 's ContextServiceState \<times> (js_error + bool)" where
  "spec_removeDocumentFromContext docId service =
     (case currentContext service of
        None \<Rightarrow> (service, Inr False)
      | Some context \<Rightarrow>
          if \<not> hasDocument docId context then (service, Inr False)
          else
            (let context' = context\<lparr>documentContext := Some (filter (\<lambda>d. documentId d \<noteq> docId) (contextDocuments context))\<rparr>;
                 persisted = saveContext (storageService service) (backend service) (conversationId context') context'
             in (service\<lparr>backend := fst persisted, currentContext := Some context'\<rparr>, Inr True)))"

text \<open>Modelled from the spec: \<open>ContextService.setMetisActive\<close> (section 4.3).\<close>

definition spec_setMetisActive :: "bool \<Rightarrow> 's ContextServiceState \<Rightarrow> 's ContextServiceState" where
  "spec_setMetisActive active service = service\<lparr>serviceMetisActive := active\<rparr>"

text \<open>Modelled from the spec: the context service as the clients take it, over a storage
  service and the initial state of its backend.\<close>

definition specContextService :: "'s LocalStorageService \<Rightarrow> 's \<Rightarrow> 's ContextServiceState ContextService" where
  "specContextService svc st =
     \<lparr> newContextService = (\<lambda>active.
          \<lparr>currentContext = None, serviceMetisActive = active, storageService = svc, backend = st\<rparr>),
       cs_addDocumentToContext = spec_addDocumentToContext,
       cs_removeDocumentFromContext = spec_removeDocumentFromContext,
       cs_setMetisActive = spec_setMetisActive \<rparr>"

section \<open>Storage backends\<close>

text \<open>
  What the properties ask of a backend. A backend \<open>keeps other keys\<close> when a write or a
  removal under one key leaves every other key as it was, and it is \<open>faithful\<close> when, in
  addition, a key reads back what was last written and reads back nothing once removed.
\<close>

definition keepsOtherKeys :: "'s Storage \<Rightarrow> bool" where
  "keepsOtherKeys b =
     ((\<forall>st k v st' k'. setItem b st k v = Inr st' \<and> k' \<noteq> k \<longrightarrow> getItem b st' k' = getItem b st k')
      \<and> (\<forall>st k st' k'. removeItem b st k = Inr st' \<and> k' \<noteq> k \<longrightarrow> getItem b st' k' = getItem b st k'))"

definition faithful :: "'s Storage \<Rightarrow> bool" where
  "faithful b =
     (keepsOtherKeys b
      \<and> (\<forall>st k v st'. setItem b st k v = Inr st' \<longrightarrow> getItem b st' k = Some v)
      \<and> (\<forall>st k st'. removeItem b st k = Inr st' \<longrightarrow> getItem b st' k = None))"

text \<open>
  Concrete backends over a list of entries. \<open>memoryStorage\<close> accepts every write;
  \<open>quotaStorage n\<close> rejects a write after which the keys and values would take more than
  \<open>n\<close> characters; \<open>stickyStorage\<close> ignores removals; \<open>lossyStorage damage\<close> stores every
  value damaged: \<open>clipped\<close> to the first character of each document's content,
  \<open>withoutLastDocument\<close>, or \<open>withoutDocuments\<close> (no document list at all).
\<close>

type_synonym memory = "(string \<times> item) list"

definition put :: "string \<Rightarrow> item \<Rightarrow> memory \<Rightarrow> memory" where
  "put k v st = (k, v) # filter (\<lambda>e. fst e \<noteq> k) st"

definition memoryStorage :: "memory Storage" where
  "memoryStorage =
     \<lparr> getItem = (\<lambda>st k. map_of st k),
       setItem = (\<lambda>st k v. Inr (put k v st)),
       removeItem = (\<lambda>st k. Inr (filter (\<lambda>e. fst e \<noteq> k) st)) \<rparr>"

definition usedSpace :: "memory \<Rightarrow> nat" where
  "usedSpace st = sum_list (map (\<lambda>e. length (fst e) + length (itemText (snd e))) st)"

definition quotaStorage :: "nat \<Rightarrow> memory Storage" where
  "quotaStorage capacity =
     memoryStorage\<lparr>setItem := (\<lambda>st k v.
        if usedSpace (put k v st) > capacity then Inl (DOMException ''QuotaExceededError'')
        else Inr (put k v st))\<rparr>"

definition stickyStorage :: "memory Storage" where
  "stickyStorage = memoryStorage\<lparr>removeItem := (\<lambda>st k. Inr st)\<rparr>"

definition clipped :: "item \<Rightarrow> item" where
  "clipped v =
     (case v of
        JSON c \<Rightarrow> JSON (c\<lparr>documentContext := map_option (map (\<lambda>d. d\<lparr>content := take 1 (content d)\<rparr>)) (documentContext c)\<rparr>)
      | Raw t \<Rightarrow> Raw t)"

definition withoutLastDocument :: "item \<Rightarrow> item" where
  "withoutLastDocument v =
     (case v of
        JSON c \<Rightarrow> JSON (c\<lparr>documentContext := map_option butlast (documentContext c)\<rparr>)
      | Raw t \<Rightarrow> Raw t)"

definition withoutDocuments :: "item \<Rightarrow> item" where
  "withoutDocuments v =
     (case v of
        JSON c \<Rightarrow> JSON (c\<lparr>documentContext := None\<rparr>)
      | Raw t \<Rightarrow> Raw t)"

definition lossyStorage :: "(item \<Rightarrow> item) \<Rightarrow> memory Storage" where
  "lossyStorage damage = memoryStorage\<lparr>setItem := (\<lambda>st k v. Inr (put k (damage v) st))\<rparr>"

section \<open>Example data\<close>

definition exampleDocs :: "DocumentContextEntry list" where
  "exampleDocs =
     [\<lparr>documentId = ''d1'', documentName = ''one'', documentType = ''pdf'', content = ''abcd''\<rparr>,
      \<lparr>documentId = ''d2'', documentName = ''two'', documentType = ''txt'', content = ''abcde''\<rparr>]"

definition exampleContext :: MCPContext where
  "exampleContext =
     \<lparr>conversationId = ''c1'', documentContext = Some exampleDocs, messageHistory = [],
      modelPreference = None, metisActive = False\<rparr>"

definition smallOptions :: "memory StorageOptions" where
  "smallOptions = \<lparr>opt_storage = Some memoryStorage, opt_keyPrefix = None, opt_maxDocumentSize = Some 4\<rparr>"

text \<open>A context service that only records the ids it was given, and a window with listeners.\<close>

definition recordingService :: "string list ContextService" where
  "recordingService =
     \<lparr> newContextService = (\<lambda>active. []),
       cs_addDocumentToContext = (\<lambda>docId docName docType docContent ids. (ids @ [docId], None)),
       cs_removeDocumentFromContext = (\<lambda>docId ids. (removeAll docId ids, Inr (docId \<in> set ids))),
       cs_setMetisActive = (\<lambda>active ids. ids) \<rparr>"

definition exampleWindow :: Window where
  "exampleWindow =
     \<lparr>listeners = [(''documentContextUpdated'', 0), (''iqubeSelected'', 1), (''documentContextUpdated'', 2)],
      dispatched = [], delivered = []\<rparr>"

text \<open>A context service whose whole state is the metis flag.\<close>

definition flagService :: "bool ContextService" where
  "flagService =
     \<lparr> newContextService = (\<lambda>active. active),
       cs_addDocumentToContext = (\<lambda>docId docName docType docContent flag. (flag, None)),
       cs_removeDocumentFromContext = (\<lambda>docId flag. (flag, Inr False)),
       cs_setMetisActive = (\<lambda>active flag. active) \<rparr>"

definition firstOptions :: MCPClientOptions where
  "firstOptions = \<lparr>opt_serverUrl = Some ''https://a.example'', opt_authToken = None, opt_metisActive = None\<rparr>"

definition laterOptions :: MCPClientOptions where
  "laterOptions = \<lparr>opt_serverUrl = Some ''https://b.example'', opt_authToken = Some ''t'', opt_metisActive = Some True\<rparr>"

definition defaultOptions :: "memory StorageOptions" where
  "defaultOptions = \<lparr>opt_storage = Some memoryStorage, opt_keyPrefix = None, opt_maxDocumentSize = None\<rparr>"

definition stickyOptions :: "memory StorageOptions" where
  "stickyOptions = \<lparr>opt_storage = Some stickyStorage, opt_keyPrefix = None, opt_maxDocumentSize = None\<rparr>"

definition longDocs :: "DocumentContextEntry list" where
  "longDocs =
     [\<lparr>documentId = ''d1'', documentName = ''one'', documentType = ''pdf'',
       content = ''0123456789012345678901234567890123456789012345678901234567890123456789''\<rparr>]"

definition longContext :: MCPContext where
  "longContext =
     \<lparr>conversationId = ''c1'', documentContext = Some longDocs, messageHistory = [],
      modelPreference = None, metisActive = False\<rparr>"

definition quotaOptions :: "nat \<Rightarrow> memory StorageOptions" where
  "quotaOptions capacity = \<lparr>opt_storage = Some (quotaStorage capacity), opt_keyPrefix = None, opt_maxDocumentSize = None\<rparr>"

definition lossyOptions :: "(item \<Rightarrow> item) \<Rightarrow> memory StorageOptions" where
  "lossyOptions damage = \<lparr>opt_storage = Some (lossyStorage damage), opt_keyPrefix = None, opt_maxDocumentSize = None\<rparr>"

definition clippedDocs :: "DocumentContextEntry list" where
  "clippedDocs =
     [\<lparr>documentId = ''d1'', documentName = ''one'', documentType = ''pdf'', content = ''a''\<rparr>,
      \<lparr>documentId = ''d2'', documentName = ''two'', documentType = ''txt'', content = ''a''\<rparr>]"

definition exampleService :: "memory ContextServiceState" where
  "exampleService =
     \<lparr>currentContext = Some exampleContext, serviceMetisActive = False,
      storageService = newLocalStorageService None defaultOptions,
      backend = [(''mcp-context-c1'', JSON exampleContext)]\<rparr>"

text \<open>The context service at the start of a new conversation: an empty context, nothing stored.\<close>

definition emptyService :: "memory ContextServiceState" where
  "emptyService =
     \<lparr>currentContext = Some \<lparr>conversationId = ''c1'', documentContext = Some [], messageHistory = [],
                              modelPreference = None, metisActive = False\<rparr>,
      serviceMetisActive = False,
      storageService = newLocalStorageService None defaultOptions,
      backend = []\<rparr>"

definition twinDocs :: "DocumentContextEntry list" where
  "twinDocs =
     [\<lparr>documentId = ''d1'', documentName = ''one'', documentType = ''txt'', content = ''abcde''\<rparr>,
      \<lparr>documentId = ''d1'', documentName = ''two'', documentType = ''txt'', content = ''vwxyz''\<rparr>]"

definition twinContext :: MCPContext where
  "twinContext =
     \<lparr>conversationId = ''c1'', documentContext = Some twinDocs, messageHistory = [],
      modelPreference = None, metisActive = False\<rparr>"

definition chunkOptions :: "memory StorageOptions" where
  "chunkOptions = \<lparr>opt_storage = Some memoryStorage, opt_keyPrefix = None, opt_maxDocumentSize = Some 9\<rparr>"

definition refDocs :: "DocumentContextEntry list" where
  "refDocs = [\<lparr>documentId = ''d1'', documentName = ''one'', documentType = ''txt'', content = ''__DOC_REF__x''\<rparr>]"

definition refContext :: MCPContext where
  "refContext =
     \<lparr>conversationId = ''c1'', documentContext = Some refDocs, messageHistory = [],
      modelPreference = None, metisActive = False\<rparr>"

text \<open>A backend with a capacity and a service with a ceiling of its own; a ceiling that is
  not a whole number, and a document longer than it by more than one character.\<close>

definition ceilingOptions :: "nat \<Rightarrow> rat \<Rightarrow> memory StorageOptions" where
  "ceilingOptions capacity limit =
     \<lparr>opt_storage = Some (quotaStorage capacity), opt_keyPrefix = None, opt_maxDocumentSize = Some limit\<rparr>"

definition fractionOptions :: "memory StorageOptions" where
  "fractionOptions = \<lparr>opt_storage = Some memoryStorage, opt_keyPrefix = None, opt_maxDocumentSize = Some (9 / 2)\<rparr>"

definition sixDocs :: "DocumentContextEntry list" where
  "sixDocs = [\<lparr>documentId = ''d1'', documentName = ''one'', documentType = ''txt'', content = ''abcdef''\<rparr>]"

definition sixContext :: MCPContext where
  "sixContext =
     \<lparr>conversationId = ''c1'', documentContext = Some sixDocs, messageHistory = [],
      modelPreference = None, metisActive = False\<rparr>"

section \<open>Properties\<close>

subsection \<open>Serialized strings\<close>

lemma quoted_escapes:
  "quoted (''a\"b'' @ [CHR 0x0A, CHR 0x1F]) = ''\"a'' @ [CHR 0x5C] @ ''\"b'' @ [CHR 0x5C] @ ''n'' @ [CHR 0x5C] @ ''u001f\"''"
  by (simp add: quoted_def escaped_def hexDigit_def)

subsection \<open>The example backends\<close>

lemma map_of_remove: "map_of (filter (\<lambda>e. fst e \<noteq> k) st) k' = (if k' = k then None else map_of st k')"
  by (induction st) auto

lemma map_of_put: "map_of (put k v st) k' = (if k' = k then Some v else map_of st k')"
  by (simp add: put_def map_of_remove)

lemma faithful_memoryStorage: "faithful memoryStorage"
  by (auto simp: faithful_def keepsOtherKeys_def memoryStorage_def map_of_put map_of_remove)

lemma faithful_quotaStorage: "faithful (quotaStorage n)"
  by (auto simp: faithful_def keepsOtherKeys_def quotaStorage_def memoryStorage_def map_of_put map_of_remove
      split: if_splits)

subsection \<open>Saving in the truncating variant\<close>

lemma prepareDocument_unchanged:
  "content doc \<noteq> [] \<Longrightarrow> of_nat (length (content doc)) \<le> maxSize \<Longrightarrow> prepareDocument maxSize doc = doc"
  by (simp add: prepareDocument_def)

lemma prepareDocument_truncated:
  "content doc \<noteq> [] \<Longrightarrow> of_nat (length (content doc)) > maxSize \<Longrightarrow>
     prepareDocument maxSize doc =
       doc\<lparr>content := take (nat \<lfloor>maxSize\<rfloor>) (content doc)
                        @ CHR 0x0A # ''[CONTENT TRUNCATED DUE TO SIZE LIMITATIONS]''\<rparr>"
  by (simp add: prepareDocument_def substring0_def truncationMarker_def)

lemma prepareDocument_empty:
  "content doc = [] \<Longrightarrow> prepareDocument maxSize doc = doc\<lparr>content := ''[No content available]''\<rparr>"
  by (simp add: prepareDocument_def)

lemma maxDocumentSize_nonzero: "maxDocumentSize (newLocalStorageService localStorage options) \<noteq> 0"
  by (simp add: newLocalStorageService_def split: option.splits)

lemma maxDocumentSize_default:
  "opt_maxDocumentSize options = None \<Longrightarrow>
     maxDocumentSize (newLocalStorageService localStorage options) = 1024 * 1024"
  by (simp add: newLocalStorageService_def)

lemma verifyStoredContext_not_quota:
  "verifyStoredContext b st key c = Inl e \<Longrightarrow> \<not> isQuotaExceeded e"
  by (auto simp: verifyStoredContext_def Let_def JSON_parse_def isQuotaExceeded_def
      split: if_splits sum.splits option.splits item.splits prod.splits)

lemma handleStorageError_other:
  "\<not> isQuotaExceeded e \<Longrightarrow> handleStorageError svc b st convId context e = (st, [])"
  by (simp add: handleStorageError_def)

lemma saveContext_try_written:
  assumes "documentContext context = Some docs" and "docs \<noteq> []"
    and "setItem b st (keyPrefix svc @ convId) (JSON (prepareContextForStorage svc context)) = Inr st'"
  shows "saveContext_try svc b st convId context =
     (st', DocumentSizes (map (\<lambda>doc. (documentName doc, length (content doc)))
              (the (documentContext (prepareContextForStorage svc context))))
           # (case verifyStoredContext b st' (keyPrefix svc @ convId) (prepareContextForStorage svc context) of
                Inl e \<Rightarrow> [] | Inr checks \<Rightarrow> checks),
      (case verifyStoredContext b st' (keyPrefix svc @ convId) (prepareContextForStorage svc context) of
                Inl e \<Rightarrow> Some e | Inr checks \<Rightarrow> None))"
  using assms by (simp add: saveContext_try_def Let_def split: sum.splits)

lemma saveContext_state_after_write:
  assumes "storage svc = Some b"
    and "documentContext context = Some docs" and "docs \<noteq> []"
    and "setItem b st (keyPrefix svc @ convId) (JSON (prepareContextForStorage svc context)) = Inr st'"
  shows "fst (saveContext svc st convId context) = st'"
proof (cases "verifyStoredContext b st' (keyPrefix svc @ convId) (prepareContextForStorage svc context)")
  case (Inl e)
  then show ?thesis
    using assms verifyStoredContext_not_quota[OF Inl]
    by (simp add: saveContext_def saveContext_try_written handleStorageError_other)
next
  case (Inr checks)
  then show ?thesis
    using assms by (simp add: saveContext_def saveContext_try_written)
qed

lemma loadContext_reads:
  "storage svc = Some b \<Longrightarrow> getItem b st (keyPrefix svc @ convId) = Some (JSON c) \<Longrightarrow>
     loadContext svc st convId = Some c"
  by (simp add: loadContext_def missing_def JSON_parse_def)

subsection \<open>The context client\<close>

text \<open>
  C8. A call of the client's \<open>addDocumentToContext\<close> with empty content ends with the
  empty-content error and leaves the client (with its context service and whatever that
  persists) and the window as they were, whatever the context service is: the service is
  not called and no event is dispatched. The same holds of the \<open>MCPClient\<close> that carries
  the context methods itself, which in addition shows a toast.
\<close>

theorem empty_content_rejected:
  "addDocumentToContext cs now docId docName docType [] (client, window)
     = ((client, window), Some (emptyContentError docName)) \<and>
   MCPClient_addDocumentToContext cs now docId docName docType [] (mclient, window, toasts)
     = ((mclient, window, toasts @ [''Failed to add document '' @ docName]), Some (emptyContentError docName))"
  by (simp add: addDocumentToContext_def MCPClient_addDocumentToContext_def)

text \<open>
  C4, as amended. When the context service adds the document without error, the client's
  \<open>addDocumentToContext\<close> dispatches exactly one \<open>documentContextUpdated\<close> event on the
  window, handed to every listener registered for that event type; its payload is the time
  stamp alone. The same holds of \<open>removeDocumentFromContext\<close> when the context service
  reports the document as removed. Without a window nothing is dispatched.
\<close>

theorem change_event_dispatched:
  "(docContent \<noteq> [] \<and>
    cs_addDocumentToContext cs docId docName docType docContent (contextService client) = (added, None) \<longrightarrow>
      addDocumentToContext cs now docId docName docType docContent (client, Some w)
        = ((client\<lparr>contextService := added\<rparr>,
            Some (w\<lparr>dispatched := dispatched w @ [\<lparr>eventType = ''documentContextUpdated'', detail = [(''timestamp'', Num now)]\<rparr>],
                    delivered := delivered w @ map (\<lambda>l. (l, \<lparr>eventType = ''documentContextUpdated'', detail = [(''timestamp'', Num now)]\<rparr>))
                       (map snd (filter (\<lambda>e. fst e = ''documentContextUpdated'') (listeners w)))\<rparr>)), None)
      \<and> addDocumentToContext cs now docId docName docType docContent (client, None)
        = ((client\<lparr>contextService := added\<rparr>, None), None))
   \<and> (cs_removeDocumentFromContext cs' docId' (contextService client') = (removed, Inr True) \<longrightarrow>
      removeDocumentFromContext cs' now' docId' (client', Some w')
        = ((client'\<lparr>contextService := removed\<rparr>,
            Some (w'\<lparr>dispatched := dispatched w' @ [\<lparr>eventType = ''documentContextUpdated'', detail = [(''timestamp'', Num now')]\<rparr>],
                    delivered := delivered w' @ map (\<lambda>l. (l, \<lparr>eventType = ''documentContextUpdated'', detail = [(''timestamp'', Num now')]\<rparr>))
                       (map snd (filter (\<lambda>e. fst e = ''documentContextUpdated'') (listeners w')))\<rparr>)), True)
      \<and> removeDocumentFromContext cs' now' docId' (client', None)
        = ((client'\<lparr>contextService := removed\<rparr>, None), True))"
  by (simp add: addDocumentToContext_def removeDocumentFromContext_def notifyDocumentContextChange_def
      dispatchEvent_def filter_map comp_def case_prod_unfold)

theorem change_event_dispatched_witness:
  "addDocumentToContext recordingService 7 ''d2'' ''two'' ''txt'' ''abc'' (newMCPContextClient [''d1''], Some exampleWindow)
     = ((\<lparr>contextService = [''d1'', ''d2''], initialized = False\<rparr>,
         Some (exampleWindow\<lparr>
           dispatched := [\<lparr>eventType = ''documentContextUpdated'', detail = [(''timestamp'', Num 7)]\<rparr>],
           delivered := [(0, \<lparr>eventType = ''documentContextUpdated'', detail = [(''timestamp'', Num 7)]\<rparr>),
                         (2, \<lparr>eventType = ''documentContextUpdated'', detail = [(''timestamp'', Num 7)]\<rparr>)]\<rparr>)), None)
   \<and> removeDocumentFromContext recordingService 8 ''d1'' (newMCPContextClient [''d1''], Some exampleWindow)
     = ((\<lparr>contextService = [], initialized = False\<rparr>,
         Some (exampleWindow\<lparr>
           dispatched := [\<lparr>eventType = ''documentContextUpdated'', detail = [(''timestamp'', Num 8)]\<rparr>],
           delivered := [(0, \<lparr>eventType = ''documentContextUpdated'', detail = [(''timestamp'', Num 8)]\<rparr>),
                         (2, \<lparr>eventType = ''documentContextUpdated'', detail = [(''timestamp'', Num 8)]\<rparr>)]\<rparr>)), True)"
proof -
  have a: "cs_addDocumentToContext recordingService ''d2'' ''two'' ''txt'' ''abc''
             (contextService (newMCPContextClient [''d1''])) = ([''d1'', ''d2''], None)"
    by (simp add: recordingService_def newMCPContextClient_def)
  have r: "cs_removeDocumentFromContext recordingService ''d1''
             (contextService (newMCPContextClient [''d1''])) = ([], Inr True)"
    by (simp add: recordingService_def newMCPContextClient_def)
  have ne: "''abc'' \<noteq> []" by simp
  from change_event_dispatched[where cs=recordingService and docId="''d2''" and docName="''two''" and docType="''txt''"
      and docContent="''abc''" and client="newMCPContextClient [''d1'']" and added="[''d1'', ''d2'']"
      and now=7 and w=exampleWindow
      and cs'=recordingService and docId'="''d1''" and client'="newMCPContextClient [''d1'']" and removed="[]"
      and now'=8 and w'=exampleWindow] a r ne
  show ?thesis
    by (simp add: exampleWindow_def newMCPContextClient_def)
qed

text \<open>
  The claim as stated fails: after a successful add and after a successful remove through
  the client, the one event dispatched carries the field \<open>timestamp\<close> only, neither
  \<open>documentId\<close> nor \<open>action\<close>.
\<close>

theorem change_event_payload_counterexample:
  "map (\<lambda>ev. (eventType ev, map fst (detail ev)))
     (dispatched (the (snd (fst (addDocumentToContext recordingService 7 ''d1'' ''one'' ''pdf'' ''abc''
        (newMCPContextClient [], Some exampleWindow))))))
     = [(''documentContextUpdated'', [''timestamp''])]
   \<and> map (\<lambda>ev. (eventType ev, map fst (detail ev)))
     (dispatched (the (snd (fst (removeDocumentFromContext recordingService 7 ''d1''
        (newMCPContextClient [''d1''], Some exampleWindow))))))
     = [(''documentContextUpdated'', [''timestamp''])]"
  by (simp add: addDocumentToContext_def removeDocumentFromContext_def notifyDocumentContextChange_def
      dispatchEvent_def recordingService_def newMCPContextClient_def exampleWindow_def)

subsection \<open>The singleton\<close>

lemma getMCPClient_calls_existing:
  "mcpClientInstance m = Some r \<Longrightarrow> r < length (objects m) \<Longrightarrow>
     getMCPClient_calls cs d later m =
       (replicate (length later) r,
        m\<lparr>objects := (objects m)[r := foldl (\<lambda>c opts. case opt_metisActive opts of
                 Some a \<Rightarrow> EnhancedMCPClient_setMetisActive cs a c | None \<Rightarrow> c) (objects m ! r) later]\<rparr>)"
proof (induction later arbitrary: m)
  case Nil
  then show ?case by simp
next
  case (Cons opts later)
  show ?case
  proof (cases "opt_metisActive opts")
    case None
    then show ?thesis using Cons by (simp add: getMCPClient_def)
  next
    case (Some a)
    let ?m' = "m\<lparr>objects := (objects m)[r := EnhancedMCPClient_setMetisActive cs a (objects m ! r)]\<rparr>"
    have "getMCPClient cs d opts m = (r, ?m')"
      using Some Cons.prems by (simp add: getMCPClient_def)
    moreover have "mcpClientInstance ?m' = Some r" "r < length (objects ?m')"
      using Cons.prems by simp_all
    ultimately show ?thesis
      using Cons.IH[of ?m'] Some Cons.prems by simp
  qed
qed

lemma MCPClient_getMCPClient_calls_existing:
  "mcpClientInstance m = Some r \<Longrightarrow> r < length (objects m) \<Longrightarrow>
     MCPClient_getMCPClient_calls cs d later m =
       (replicate (length later) r,
        m\<lparr>objects := (objects m)[r := foldl (\<lambda>c opts. case opt_metisActive opts of
                 Some a \<Rightarrow> MCPClient_setMetisActive cs a c | None \<Rightarrow> c) (objects m ! r) later]\<rparr>)"
proof (induction later arbitrary: m)
  case Nil
  then show ?case by simp
next
  case (Cons opts later)
  show ?case
  proof (cases "opt_metisActive opts")
    case None
    then show ?thesis using Cons by (simp add: MCPClient_getMCPClient_def)
  next
    case (Some a)
    let ?m' = "m\<lparr>objects := (objects m)[r := MCPClient_setMetisActive cs a (objects m ! r)]\<rparr>"
    have "MCPClient_getMCPClient cs d opts m = (r, ?m')"
      using Some Cons.prems by (simp add: MCPClient_getMCPClient_def)
    moreover have "mcpClientInstance ?m' = Some r" "r < length (objects ?m')"
      using Cons.prems by simp_all
    ultimately show ?thesis
      using Cons.IH[of ?m'] Some Cons.prems by simp
  qed
qed

text \<open>
  C10. Starting from a module whose \<open>mcpClientInstance\<close> is unset, the first call of
  \<open>getMCPClient\<close> constructs one client from its options and every call, the first and all
  later ones, returns the reference to that one object. Of the options of a later call only
  \<open>metisActive\<close>, when defined, has an effect: it is applied to the existing object by
  \<open>setMetisActive\<close>, which leaves the rest of the object alone. Both modules that define
  \<open>getMCPClient\<close> behave so.
\<close>

theorem getMCPClient_singleton:
  assumes "mcpClientInstance m = None" and "mcpClientInstance m' = None"
  shows "getMCPClient_calls cs d (first # later) m =
           (replicate (Suc (length later)) (length (objects m)),
            \<lparr>objects = objects m @ [foldl (\<lambda>c opts. case opt_metisActive opts of
                  Some a \<Rightarrow> EnhancedMCPClient_setMetisActive cs a c | None \<Rightarrow> c)
                  (newEnhancedMCPClient cs d first) later],
             mcpClientInstance = Some (length (objects m))\<rparr>)
     \<and> MCPClient_getMCPClient_calls cs d (first # later) m' =
           (replicate (Suc (length later)) (length (objects m')),
            \<lparr>objects = objects m' @ [foldl (\<lambda>c opts. case opt_metisActive opts of
                  Some a \<Rightarrow> MCPClient_setMetisActive cs a c | None \<Rightarrow> c)
                  (newMCPClient cs d first) later],
             mcpClientInstance = Some (length (objects m'))\<rparr>)
     \<and> EnhancedMCPClient_setMetisActive cs a e =
           e\<lparr>contextClient := (contextClient e)\<lparr>contextService := cs_setMetisActive cs a (contextService (contextClient e))\<rparr>\<rparr>
     \<and> MCPClient_setMetisActive cs a c =
           c\<lparr>mc_contextService := cs_setMetisActive cs a (mc_contextService c)\<rparr>"
proof -
  let ?m1 = "m\<lparr>objects := objects m @ [newEnhancedMCPClient cs d first], mcpClientInstance := Some (length (objects m))\<rparr>"
  have 1: "getMCPClient cs d first m = (length (objects m), ?m1)"
    using assms(1) by (simp add: getMCPClient_def)
  have 2: "mcpClientInstance ?m1 = Some (length (objects m))" "length (objects m) < length (objects ?m1)"
    by simp_all
  let ?m1' = "m'\<lparr>objects := objects m' @ [newMCPClient cs d first], mcpClientInstance := Some (length (objects m'))\<rparr>"
  have 3: "MCPClient_getMCPClient cs d first m' = (length (objects m'), ?m1')"
    using assms(2) by (simp add: MCPClient_getMCPClient_def)
  have 4: "mcpClientInstance ?m1' = Some (length (objects m'))" "length (objects m') < length (objects ?m1')"
    by simp_all
  show ?thesis
    using 1 3 getMCPClient_calls_existing[OF 2, of cs d later]
      MCPClient_getMCPClient_calls_existing[OF 4, of cs d later]
    by (simp add: EnhancedMCPClient_setMetisActive_def setMetisActive_def MCPClient_setMetisActive_def)
qed

theorem getMCPClient_singleton_witness:
  "getMCPClient_calls flagService () [firstOptions, laterOptions, firstOptions] \<lparr>objects = [], mcpClientInstance = None\<rparr> =
     ([0, 0, 0],
      \<lparr>objects = [\<lparr>base = \<lparr>serverUrl = ''https://a.example'', authToken = None, mc_contextService = False,
                           driveService = (), mc_initialized = False\<rparr>,
                   contextClient = \<lparr>contextService = True, initialized = False\<rparr>\<rparr>],
       mcpClientInstance = Some 0\<rparr>)
   \<and> MCPClient_getMCPClient_calls flagService () [firstOptions, laterOptions, firstOptions] \<lparr>objects = [], mcpClientInstance = None\<rparr> =
     ([0, 0, 0],
      \<lparr>objects = [\<lparr>serverUrl = ''https://a.example'', authToken = None, mc_contextService = True,
                   driveService = (), mc_initialized = False\<rparr>],
       mcpClientInstance = Some 0\<rparr>)"
proof -
  have n: "mcpClientInstance \<lparr>objects = [], mcpClientInstance = None\<rparr> = None"
    by simp
  from getMCPClient_singleton[OF n n, of flagService "()" firstOptions "[laterOptions, firstOptions]"]
  show ?thesis
    by (simp add: firstOptions_def laterOptions_def flagService_def newEnhancedMCPClient_def newMCPClient_def
        newMCPContextClient_def metisActiveOrFalse_def EnhancedMCPClient_setMetisActive_def setMetisActive_def
        MCPClient_setMetisActive_def)
qed

subsection \<open>Removing a context\<close>

lemma removeDocRefs_no_throw:
  "(\<forall>s k. \<exists>s'. removeItem b s k = Inr s') \<Longrightarrow> snd (removeDocRefs b st docs) = None"
proof (induction docs arbitrary: st)
  case Nil
  then show ?case by simp
next
  case (Cons doc docs)
  show ?case
  proof (cases "isDocRef (content doc)")
    case True
    from Cons.prems obtain s' where "removeItem b st (docRefKey (content doc)) = Inr s'" by blast
    then show ?thesis using True Cons by simp
  next
    case False
    then show ?thesis using Cons by simp
  qed
qed

text \<open>
  C7, as amended. In the truncating variant \<open>removeContext\<close> returns true exactly when the
  storage is available, the removal did not throw and reading the same key back afterwards
  finds no entry. The chunking variant reads nothing back: it returns true as soon as the
  stored entry, if any, parses and no removal throws.
\<close>

theorem removeContext_read_back:
  "(snd (removeContext svc st convId) \<longleftrightarrow>
      (\<exists>b st'. storage svc = Some b \<and> removeItem b st (keyPrefix svc @ convId) = Inr st'
          \<and> getItem b st' (keyPrefix svc @ convId) = None))
   \<and> (storage svc = Some b \<and> (\<forall>s k. \<exists>s'. removeItem b s k = Inr s')
        \<and> (\<forall>t. getItem b st (keyPrefix svc @ convId) = Some (Raw t) \<longrightarrow> t = [])
      \<longrightarrow> snd (removeContext_chunking svc st convId))"
proof -
  have A: "snd (removeContext svc st convId) \<longleftrightarrow>
      (\<exists>b st'. storage svc = Some b \<and> removeItem b st (keyPrefix svc @ convId) = Inr st'
          \<and> getItem b st' (keyPrefix svc @ convId) = None)"
    by (auto simp: removeContext_def Let_def split: option.splits sum.splits)
  have B: "snd (removeContext_chunking svc st convId)"
    if h: "storage svc = Some b" "\<forall>s k. \<exists>s'. removeItem b s k = Inr s'"
      "\<forall>t. getItem b st (keyPrefix svc @ convId) = Some (Raw t) \<longrightarrow> t = []"
  proof -
    let ?key = "keyPrefix svc @ convId"
    let ?phase1 = "(if \<not> missing (getItem b st ?key) then
                      (case JSON_parse (the (getItem b st ?key)) of
                         Inl e \<Rightarrow> (st, Some e)
                       | Inr context \<Rightarrow>
                           (case documentContext context of
                              None \<Rightarrow> (st, None)
                            | Some docs \<Rightarrow> removeDocRefs b st docs))
                    else (st, None))"
    have p1: "snd ?phase1 = None"
      using h(3) removeDocRefs_no_throw[OF h(2)]
      by (auto simp: missing_def JSON_parse_def split: option.splits item.splits)
    obtain st1 where s1: "?phase1 = (st1, None)"
      using p1 by (cases ?phase1) auto
    obtain st2 where s2: "removeItem b st1 ?key = Inr st2" using h(2) by blast
    obtain st3 where s3: "removeItem b st2 (?key @ ''_minimal'') = Inr st3" using h(2) by blast
    show ?thesis
      using h(1) s1 s2 s3 by (simp add: removeContext_chunking_def Let_def)
  qed
  from A B show ?thesis by blast
qed

theorem removeContext_read_back_witness:
  "snd (removeContext (newLocalStorageService None defaultOptions) [(''mcp-context-c1'', JSON exampleContext)] ''c1'')
   \<and> snd (removeContext_chunking (newLocalStorageService_chunking None stickyOptions)
          [(''mcp_context_c1'', JSON exampleContext)] ''c1'')"
proof -
  let ?A = "newLocalStorageService None defaultOptions"
  let ?B = "newLocalStorageService_chunking None stickyOptions"
  have a: "\<exists>b st'. storage ?A = Some b \<and> removeItem b [(''mcp-context-c1'', JSON exampleContext)] (keyPrefix ?A @ ''c1'') = Inr st'
          \<and> getItem b st' (keyPrefix ?A @ ''c1'') = None"
    by (simp add: newLocalStorageService_def defaultOptions_def memoryStorage_def)
  have b: "storage ?B = Some stickyStorage \<and> (\<forall>s k. \<exists>s'. removeItem stickyStorage s k = Inr s')
        \<and> (\<forall>t. getItem stickyStorage [(''mcp_context_c1'', JSON exampleContext)] (keyPrefix ?B @ ''c1'') = Some (Raw t) \<longrightarrow> t = [])"
    by (simp add: newLocalStorageService_chunking_def stickyOptions_def stickyStorage_def memoryStorage_def)
  from a b
    removeContext_read_back[of ?A "[(''mcp-context-c1'', JSON exampleContext)]" "''c1''"]
    removeContext_read_back[of ?B "[(''mcp_context_c1'', JSON exampleContext)]" "''c1''" stickyStorage]
  show ?thesis by blast
qed

text \<open>
  The claim as stated fails in the chunking variant: on a backend that ignores removals it
  returns true although the entry is still there under the same key (the truncating
  variant returns false there).
\<close>

theorem removeContext_read_back_counterexample:
  "snd (removeContext_chunking (newLocalStorageService_chunking None stickyOptions)
          [(''mcp_context_c1'', JSON exampleContext)] ''c1'')
   \<and> getItem stickyStorage
         (fst (removeContext_chunking (newLocalStorageService_chunking None stickyOptions)
                 [(''mcp_context_c1'', JSON exampleContext)] ''c1''))
         ''mcp_context_c1'' = Some (JSON exampleContext)
   \<and> \<not> snd (removeContext (newLocalStorageService None stickyOptions)
          [(''mcp-context-c1'', JSON exampleContext)] ''c1'')"
  by (simp add: removeContext_chunking_def removeContext_def newLocalStorageService_chunking_def
      newLocalStorageService_def stickyOptions_def stickyStorage_def memoryStorage_def missing_def
      JSON_parse_def exampleContext_def exampleDocs_def isDocRef_def docRefPrefix_def Let_def)

subsection \<open>Saving in the chunking variant\<close>

lemma storeLargeDocuments_other_keys:
  assumes "keepsOtherKeys b"
    and "storeLargeDocuments b maxSize baseKey st docs = (st', out, r)"
    and "\<forall>d \<in> set docs. k \<noteq> baseKey @ ''_doc_'' @ documentId d"
  shows "getItem b st' k = getItem b st k"
  using assms(2,3)
proof (induction docs arbitrary: st st' out r)
  case Nil
  then show ?case by simp
next
  case (Cons doc docs)
  show ?case
  proof (cases "content doc \<noteq> [] \<and> of_nat (length (content doc)) > maxSize / 2")
    case False
    then obtain r0 where "storeLargeDocuments b maxSize baseKey st docs = (st', out, r0)"
      using Cons.prems(1) by (auto split: prod.splits)
    then show ?thesis using Cons.IH Cons.prems(2) by auto
  next
    case True
    show ?thesis
    proof (cases "setItem b st (baseKey @ ''_doc_'' @ documentId doc) (Raw (content doc))")
      case (Inl e)
      then show ?thesis using True Cons.prems(1) by (simp add: Let_def)
    next
      case (Inr s1)
      then obtain out0 r0 where rec: "storeLargeDocuments b maxSize baseKey s1 docs = (st', out0, r0)"
        using True Cons.prems(1) by (auto simp: Let_def split: prod.splits)
      have "getItem b s1 k = getItem b st k"
        using assms(1) Inr Cons.prems(2) by (auto simp: keepsOtherKeys_def)
      moreover have "getItem b st' k = getItem b s1 k"
        using Cons.IH[OF rec] Cons.prems(2) by auto
      ultimately show ?thesis by simp
    qed
  qed
qed


lemma keepsOtherKeys_setItem:
  "keepsOtherKeys b \<Longrightarrow> setItem b st k v = Inr st' \<Longrightarrow> k' \<noteq> k \<Longrightarrow> getItem b st' k' = getItem b st k'"
  unfolding keepsOtherKeys_def by blast

lemma keepsOtherKeys_removeItem:
  "keepsOtherKeys b \<Longrightarrow> removeItem b st k = Inr st' \<Longrightarrow> k' \<noteq> k \<Longrightarrow> getItem b st' k' = getItem b st k'"
  unfolding keepsOtherKeys_def by blast

lemma saveContext_chunking_try_main_key:
  assumes "keepsOtherKeys b"
    and "saveContext_chunking_try svc b st convId context = (st1, out, Some e)"
  shows "getItem b st1 (keyPrefix svc @ convId) = getItem b st (keyPrefix svc @ convId)"
proof (cases "case documentContext context of Some docs \<Rightarrow> docs \<noteq> [] | None \<Rightarrow> False")
  case False
  then have "st1 = st"
    using assms(2) by (auto simp: saveContext_chunking_try_def Let_def split: sum.splits)
  then show ?thesis by simp
next
  case True
  obtain s' out' r where sld: "storeLargeDocuments b (maxDocumentSize svc) (keyPrefix svc @ convId) st
      (the (documentContext context)) = (s', out', r)"
    by (metis prod_cases3)
  have "st1 = s'"
    using assms(2) True sld
    by (cases r) (auto simp: saveContext_chunking_try_def Let_def split: sum.splits)
  moreover have "getItem b s' (keyPrefix svc @ convId) = getItem b st (keyPrefix svc @ convId)"
    by (rule storeLargeDocuments_other_keys[OF assms(1) sld]) simp
  ultimately show ?thesis by simp
qed

text \<open>
  C9. In the chunking variant, let a save end in a quota error of one of its writes, on a
  backend that keeps other keys, for a conversation with no entry under its main key. Then
  the only further write is that of the placeholder-content context under the main key
  followed by \<open>_minimal\<close>, and \<open>loadContext\<close>, which reads the main key alone, returns
  null afterwards, whether or not that write was accepted.
\<close>

theorem degraded_save_not_loadable:
  assumes "storage svc = Some b" and "keepsOtherKeys b"
    and "missing (getItem b st (keyPrefix svc @ convId))"
    and "saveContext_chunking_try svc b st convId context = (st1, out, Some e)"
    and "isQuotaExceeded e"
  shows "fst (saveContext_chunking svc st convId context) =
           (case setItem b st1 (keyPrefix svc @ convId @ ''_minimal'') (JSON (minimalContext_chunking context)) of
              Inr st2 \<Rightarrow> st2 | Inl e' \<Rightarrow> st1)
       \<and> loadContext_chunking svc (fst (saveContext_chunking svc st convId context)) convId = None"
proof -
  let ?key = "keyPrefix svc @ convId"
  let ?final = "fst (saveContext_chunking svc st convId context)"
  have fin: "?final = (case setItem b st1 (?key @ ''_minimal'') (JSON (minimalContext_chunking context)) of
              Inr st2 \<Rightarrow> st2 | Inl e' \<Rightarrow> st1)"
    using assms(1,4,5) by (simp add: saveContext_chunking_def split: sum.splits)
  have k1: "getItem b st1 ?key = getItem b st ?key"
    using saveContext_chunking_try_main_key[OF assms(2,4)] .
  have "getItem b ?final ?key = getItem b st1 ?key"
  proof (cases "setItem b st1 (?key @ ''_minimal'') (JSON (minimalContext_chunking context))")
    case (Inl e')
    then show ?thesis using fin by simp
  next
    case (Inr st2)
    then have "getItem b st2 ?key = getItem b st1 ?key"
      using keepsOtherKeys_setItem[OF assms(2), of st1 "?key @ ''_minimal''" _ st2 ?key] by simp
    then show ?thesis using fin Inr by simp
  qed
  then have "missing (getItem b ?final ?key)"
    using k1 assms(3) by simp
  then have "loadContext_chunking svc ?final convId = None"
    using assms(1) by (simp add: loadContext_chunking_def Let_def)
  with fin show ?thesis by simp
qed

lemma keepsOtherKeys_quotaStorage: "keepsOtherKeys (quotaStorage n)"
  using faithful_quotaStorage by (simp add: faithful_def)

lemma usedSpace_long_chunking:
  "usedSpace (put ''mcp_context_c1'' (JSON longContext) []) = 242"
  by (simp add: usedSpace_def put_def itemText_def contextText_def longContext_def longDocs_def
      entryText_def quoted_def escaped_def)

lemma decimal_70: "decimal 70 = ''70''"
  by (simp add: decimal.simps)

lemma longDocs_placeholder:
  "map (\<lambda>doc. doc\<lparr>content := tooLargePlaceholder doc\<rparr>) longDocs =
     [\<lparr>documentId = ''d1'', documentName = ''one'', documentType = ''pdf'',
       content = ''Content too large for storage (70 bytes)''\<rparr>]"
proof -
  have "length ''0123456789012345678901234567890123456789012345678901234567890123456789'' = 70"
    by simp
  then show ?thesis
    unfolding longDocs_def tooLargePlaceholder_def
    by (simp only: list.map DocumentContextEntry.select_convs DocumentContextEntry.update_convs decimal_70) simp
qed

lemma usedSpace_long_minimal_chunking:
  "usedSpace (put ''mcp_context_c1_minimal'' (JSON (minimalContext_chunking longContext)) []) = 220"
proof -
  have "minimalContext_chunking longContext =
      longContext\<lparr>documentContext := Some [\<lparr>documentId = ''d1'', documentName = ''one'', documentType = ''pdf'',
       content = ''Content too large for storage (70 bytes)''\<rparr>]\<rparr>"
    by (simp add: minimalContext_chunking_def longContext_def longDocs_placeholder)
  then show ?thesis
    by (simp add: usedSpace_def put_def itemText_def contextText_def longContext_def
      entryText_def quoted_def escaped_def)
qed

theorem degraded_save_not_loadable_witness:
  "getItem (quotaStorage 230)
      (fst (saveContext_chunking (newLocalStorageService_chunking None (quotaOptions 230)) [] ''c1'' longContext))
      ''mcp_context_c1_minimal'' = Some (JSON (minimalContext_chunking longContext))
   \<and> loadContext_chunking (newLocalStorageService_chunking None (quotaOptions 230))
        (fst (saveContext_chunking (newLocalStorageService_chunking None (quotaOptions 230)) [] ''c1'' longContext))
        ''c1'' = None"
proof -
  let ?svc = "newLocalStorageService_chunking None (quotaOptions 230)"
  have s: "storage ?svc = Some (quotaStorage 230)" and p: "keyPrefix ?svc = ''mcp_context_''"
    and m: "maxDocumentSize ?svc = 1048576"
    by (simp_all add: newLocalStorageService_chunking_def quotaOptions_def)
  have mi: "missing (getItem (quotaStorage 230) [] (keyPrefix ?svc @ ''c1''))"
    by (simp add: quotaStorage_def memoryStorage_def missing_def)
  have dc: "documentContext longContext = Some longDocs" and ne: "longDocs \<noteq> []"
    by (simp_all add: longContext_def longDocs_def)
  have sld: "storeLargeDocuments (quotaStorage 230) 1048576 ''mcp_context_c1'' [] longDocs = ([], [], Inr longDocs)"
    by (simp add: longDocs_def)
  have ctx: "longContext\<lparr>documentContext := Some longDocs\<rparr> = longContext"
    by (simp add: longContext_def)
  have w1: "setItem (quotaStorage 230) [] ''mcp_context_c1'' (JSON longContext) = Inl (DOMException ''QuotaExceededError'')"
    by (simp add: quotaStorage_def usedSpace_long_chunking)
  have tr: "saveContext_chunking_try ?svc (quotaStorage 230) [] ''c1'' longContext
      = ([], [], Some (DOMException ''QuotaExceededError''))"
    by (simp add: saveContext_chunking_try_def p m dc ne sld ctx w1)
  have q: "isQuotaExceeded (DOMException ''QuotaExceededError'')"
    by (simp add: isQuotaExceeded_def)
  have w2: "setItem (quotaStorage 230) [] ''mcp_context_c1_minimal'' (JSON (minimalContext_chunking longContext))
      = Inr (put ''mcp_context_c1_minimal'' (JSON (minimalContext_chunking longContext)) [])"
    by (simp add: quotaStorage_def usedSpace_long_minimal_chunking)
  note t = degraded_save_not_loadable[OF s keepsOtherKeys_quotaStorage mi tr q]
  from t w2 p have f: "fst (saveContext_chunking ?svc [] ''c1'' longContext)
      = put ''mcp_context_c1_minimal'' (JSON (minimalContext_chunking longContext)) []"
    by simp
  from t have l: "loadContext_chunking ?svc (fst (saveContext_chunking ?svc [] ''c1'' longContext)) ''c1'' = None"
    by (rule conjunct2)
  have g: "getItem (quotaStorage 230) (fst (saveContext_chunking ?svc [] ''c1'' longContext))
      ''mcp_context_c1_minimal'' = Some (JSON (minimalContext_chunking longContext))"
    unfolding f by (simp add: quotaStorage_def memoryStorage_def map_of_put)
  from g l show ?thesis by (rule conjI)
qed

subsection \<open>The degradation ladder\<close>

lemma prepareContextForStorage_no_documents:
  "\<not> (case documentContext context of Some docs \<Rightarrow> docs \<noteq> [] | None \<Rightarrow> False) \<Longrightarrow>
     prepareContextForStorage svc context = context"
  by (auto simp: prepareContextForStorage_def split: option.splits)

lemma saveContext_try_rejected:
  assumes "setItem b st (keyPrefix svc @ convId) (JSON (prepareContextForStorage svc context)) = Inl e"
  shows "\<exists>out0. saveContext_try svc b st convId context = (st, out0, Some e)"
proof (cases "case documentContext context of Some docs \<Rightarrow> docs \<noteq> [] | None \<Rightarrow> False")
  case True
  then show ?thesis using assms by (simp add: saveContext_try_def Let_def)
next
  case False
  then show ?thesis
    using assms prepareContextForStorage_no_documents[OF False, of svc]
    by (simp add: saveContext_try_def Let_def)
qed

text \<open>
  C2, as amended. Truncating variant: when the backend rejects the write of \<open>saveContext\<close>
  with a quota error, the service first writes, under the same key, the context with every
  document's content replaced by a placeholder (the other fields kept); only if that write
  throws does it write the context with an empty document list; the first write accepted
  ends the ladder, and if both throw the backend is left as it was and the last console
  entry says that all attempts failed. Chunking variant: there is one degraded step only,
  the placeholder context written under the key followed by \<open>_minimal\<close>; if it throws
  the save is abandoned.
\<close>

theorem degradation_ladder:
  assumes "storage svc = Some b"
    and "setItem b st (keyPrefix svc @ convId) (JSON (prepareContextForStorage svc context)) = Inl e"
    and "isQuotaExceeded e"
    and "storage svc' = Some b'"
    and "saveContext_chunking_try svc' b' st' convId context = (st1, out, Some e')"
    and "isQuotaExceeded e'"
  shows "fst (saveContext svc st convId context) =
           (case setItem b st (keyPrefix svc @ convId) (JSON (minimalContext context)) of
              Inr reduced \<Rightarrow> reduced
            | Inl e1 \<Rightarrow>
                (case setItem b st (keyPrefix svc @ convId) (JSON (bareContext context)) of
                   Inr bare \<Rightarrow> bare
                 | Inl e2 \<Rightarrow> st))
     \<and> last (snd (saveContext svc st convId context)) =
           (case setItem b st (keyPrefix svc @ convId) (JSON (minimalContext context)) of
              Inr reduced \<Rightarrow> SavedReducedContent
            | Inl e1 \<Rightarrow>
                (case setItem b st (keyPrefix svc @ convId) (JSON (bareContext context)) of
                   Inr bare \<Rightarrow> SavedWithoutDocumentContent
                 | Inl e2 \<Rightarrow> AllAttemptsFailed e2))
     \<and> minimalContext context =
           context\<lparr>documentContext :=
             map_option (map (\<lambda>doc. doc\<lparr>content := removedContentPlaceholder doc\<rparr>)) (documentContext context)\<rparr>
     \<and> bareContext context = context\<lparr>documentContext := Some []\<rparr>
     \<and> fst (saveContext_chunking svc' st' convId context) =
           (case setItem b' st1 (keyPrefix svc' @ convId @ ''_minimal'') (JSON (minimalContext_chunking context)) of
              Inr reduced \<Rightarrow> reduced
            | Inl e1 \<Rightarrow> st1)
     \<and> last (snd (saveContext_chunking svc' st' convId context)) =
           (case setItem b' st1 (keyPrefix svc' @ convId @ ''_minimal'') (JSON (minimalContext_chunking context)) of
              Inr reduced \<Rightarrow> SavedMinimal convId
            | Inl e1 \<Rightarrow> MinimalSaveFailed e1)
     \<and> minimalContext_chunking context =
           context\<lparr>documentContext :=
             map_option (map (\<lambda>doc. doc\<lparr>content := tooLargePlaceholder doc\<rparr>)) (documentContext context)\<rparr>"
proof -
  obtain out0 where t: "saveContext_try svc b st convId context = (st, out0, Some e)"
    using saveContext_try_rejected[OF assms(2)] by blast
  have A: "saveContext svc st convId context =
      (case handleStorageError svc b st convId context e of (st'', out') \<Rightarrow> (st'', out0 @ ErrorSaving e # out'))"
    using assms(1) t by (simp add: saveContext_def)
  have A1: "fst (saveContext svc st convId context) =
           (case setItem b st (keyPrefix svc @ convId) (JSON (minimalContext context)) of
              Inr reduced \<Rightarrow> reduced
            | Inl e1 \<Rightarrow>
                (case setItem b st (keyPrefix svc @ convId) (JSON (bareContext context)) of
                   Inr bare \<Rightarrow> bare
                 | Inl e2 \<Rightarrow> st))"
    unfolding A using assms(3) by (simp add: handleStorageError_def split: sum.splits)
  have A2: "last (snd (saveContext svc st convId context)) =
           (case setItem b st (keyPrefix svc @ convId) (JSON (minimalContext context)) of
              Inr reduced \<Rightarrow> SavedReducedContent
            | Inl e1 \<Rightarrow>
                (case setItem b st (keyPrefix svc @ convId) (JSON (bareContext context)) of
                   Inr bare \<Rightarrow> SavedWithoutDocumentContent
                 | Inl e2 \<Rightarrow> AllAttemptsFailed e2))"
    unfolding A using assms(3) by (simp add: handleStorageError_def split: sum.splits)
  have A3: "minimalContext context =
           context\<lparr>documentContext :=
             map_option (map (\<lambda>doc. doc\<lparr>content := removedContentPlaceholder doc\<rparr>)) (documentContext context)\<rparr>"
    by (simp add: minimalContext_def split: option.splits)
  have A4: "bareContext context = context\<lparr>documentContext := Some []\<rparr>"
    by (simp add: bareContext_def)
  have B1: "fst (saveContext_chunking svc' st' convId context) =
           (case setItem b' st1 (keyPrefix svc' @ convId @ ''_minimal'') (JSON (minimalContext_chunking context)) of
              Inr reduced \<Rightarrow> reduced
            | Inl e1 \<Rightarrow> st1)"
    using assms(4,5,6) by (simp add: saveContext_chunking_def split: sum.splits)
  have B2: "last (snd (saveContext_chunking svc' st' convId context)) =
           (case setItem b' st1 (keyPrefix svc' @ convId @ ''_minimal'') (JSON (minimalContext_chunking context)) of
              Inr reduced \<Rightarrow> SavedMinimal convId
            | Inl e1 \<Rightarrow> MinimalSaveFailed e1)"
    using assms(4,5,6) by (simp add: saveContext_chunking_def split: sum.splits)
  have B3: "minimalContext_chunking context =
           context\<lparr>documentContext :=
             map_option (map (\<lambda>doc. doc\<lparr>content := tooLargePlaceholder doc\<rparr>)) (documentContext context)\<rparr>"
    by (simp add: minimalContext_chunking_def split: option.splits)
  from A1 A2 A3 A4 B1 B2 B3 show ?thesis by blast
qed


lemma quota_error: "isQuotaExceeded (DOMException ''QuotaExceededError'')"
  by (simp add: isQuotaExceeded_def)

lemma exampleDocs_placeholder:
  "map (\<lambda>doc. doc\<lparr>content := tooLargePlaceholder doc\<rparr>) exampleDocs =
     [\<lparr>documentId = ''d1'', documentName = ''one'', documentType = ''pdf'',
       content = ''Content too large for storage (4 bytes)''\<rparr>,
      \<lparr>documentId = ''d2'', documentName = ''two'', documentType = ''txt'',
       content = ''Content too large for storage (5 bytes)''\<rparr>]"
proof -
  have "decimal 4 = ''4''" "decimal 5 = ''5''"
    by (simp_all add: decimal.simps)
  moreover have "length ''abcd'' = 4" "length ''abcde'' = 5"
    by simp_all
  ultimately show ?thesis
    unfolding exampleDocs_def tooLargePlaceholder_def
    by (simp only: list.map DocumentContextEntry.select_convs DocumentContextEntry.update_convs) simp
qed

lemma usedSpace_example:
  "usedSpace (put ''mcp-context-c1'' (JSON exampleContext) []) = 256"
  "usedSpace (put ''mcp_context_c1'' (JSON exampleContext) []) = 256"
  by (simp_all add: usedSpace_def put_def itemText_def contextText_def exampleContext_def exampleDocs_def
      entryText_def quoted_def escaped_def)

lemma usedSpace_example_minimal:
  "usedSpace (put ''mcp-context-c1'' (JSON (minimalContext exampleContext)) []) = 365"
  by (simp add: usedSpace_def put_def itemText_def contextText_def exampleContext_def exampleDocs_def
      entryText_def quoted_def escaped_def minimalContext_def removedContentPlaceholder_def)

lemma usedSpace_example_minimal_chunking:
  "usedSpace (put ''mcp_context_c1_minimal'' (JSON (minimalContext_chunking exampleContext)) []) = 333"
proof -
  have "minimalContext_chunking exampleContext =
      exampleContext\<lparr>documentContext := Some [\<lparr>documentId = ''d1'', documentName = ''one'', documentType = ''pdf'',
       content = ''Content too large for storage (4 bytes)''\<rparr>,
      \<lparr>documentId = ''d2'', documentName = ''two'', documentType = ''txt'',
       content = ''Content too large for storage (5 bytes)''\<rparr>]\<rparr>"
    by (simp add: minimalContext_chunking_def exampleContext_def exampleDocs_placeholder)
  then show ?thesis
    by (simp add: usedSpace_def put_def itemText_def contextText_def exampleContext_def
      entryText_def quoted_def escaped_def)
qed

lemma usedSpace_example_bare:
  "usedSpace (put ''mcp-context-c1'' (JSON (bareContext exampleContext)) []) = 98"
  "usedSpace (put ''mcp_context_c1'' (JSON (bareContext exampleContext)) []) = 98"
  by (simp_all add: usedSpace_def put_def itemText_def contextText_def exampleContext_def
      entryText_def quoted_def escaped_def bareContext_def)

lemma prepare_example:
  "prepareContextForStorage (newLocalStorageService None (quotaOptions n)) exampleContext = exampleContext"
  by (simp add: prepareContextForStorage_def newLocalStorageService_def quotaOptions_def exampleContext_def
      exampleDocs_def prepareDocument_def)

lemma chunking_try_example:
  "saveContext_chunking_try (newLocalStorageService_chunking None (quotaOptions 100)) (quotaStorage 100) [] ''c1'' exampleContext
      = ([], [], Some (DOMException ''QuotaExceededError''))"
proof -
  let ?svc = "newLocalStorageService_chunking None (quotaOptions 100)"
  have p: "keyPrefix ?svc = ''mcp_context_''" and m: "maxDocumentSize ?svc = 1048576"
    by (simp_all add: newLocalStorageService_chunking_def quotaOptions_def)
  have dc: "documentContext exampleContext = Some exampleDocs" and ne: "exampleDocs \<noteq> []"
    by (simp_all add: exampleContext_def exampleDocs_def)
  have sld: "storeLargeDocuments (quotaStorage 100) 1048576 ''mcp_context_c1'' [] exampleDocs = ([], [], Inr exampleDocs)"
    by (simp add: exampleDocs_def)
  have ctx: "exampleContext\<lparr>documentContext := Some exampleDocs\<rparr> = exampleContext"
    by (simp add: exampleContext_def)
  have w1: "setItem (quotaStorage 100) [] ''mcp_context_c1'' (JSON exampleContext) = Inl (DOMException ''QuotaExceededError'')"
    by (simp add: quotaStorage_def usedSpace_example)
  show ?thesis
    by (simp add: saveContext_chunking_try_def p m dc ne sld ctx w1)
qed

lemma usedSpace_long:
  "usedSpace (put ''mcp-context-c1'' (JSON longContext) []) = 242"
  by (simp add: usedSpace_def put_def itemText_def contextText_def longContext_def longDocs_def
      entryText_def quoted_def escaped_def)

lemma usedSpace_long_minimal:
  "usedSpace (put ''mcp-context-c1'' (JSON (minimalContext longContext)) []) = 231"
  by (simp add: usedSpace_def put_def itemText_def contextText_def longContext_def longDocs_def
      entryText_def quoted_def escaped_def minimalContext_def removedContentPlaceholder_def)

lemma prepare_long:
  "prepareContextForStorage (newLocalStorageService None (quotaOptions n)) longContext = longContext"
  by (simp add: prepareContextForStorage_def newLocalStorageService_def quotaOptions_def longContext_def
      longDocs_def prepareDocument_def)

lemma chunking_try_long:
  "saveContext_chunking_try (newLocalStorageService_chunking None (quotaOptions 235)) (quotaStorage 235) [] ''c1'' longContext
      = ([], [], Some (DOMException ''QuotaExceededError''))"
proof -
  let ?svc = "newLocalStorageService_chunking None (quotaOptions 235)"
  have p: "keyPrefix ?svc = ''mcp_context_''" and m: "maxDocumentSize ?svc = 1048576"
    by (simp_all add: newLocalStorageService_chunking_def quotaOptions_def)
  have dc: "documentContext longContext = Some longDocs" and ne: "longDocs \<noteq> []"
    by (simp_all add: longContext_def longDocs_def)
  have sld: "storeLargeDocuments (quotaStorage 235) 1048576 ''mcp_context_c1'' [] longDocs = ([], [], Inr longDocs)"
    by (simp add: longDocs_def)
  have ctx: "longContext\<lparr>documentContext := Some longDocs\<rparr> = longContext"
    by (simp add: longContext_def)
  have w1: "setItem (quotaStorage 235) [] ''mcp_context_c1'' (JSON longContext) = Inl (DOMException ''QuotaExceededError'')"
    by (simp add: quotaStorage_def usedSpace_long_chunking)
  show ?thesis
    by (simp add: saveContext_chunking_try_def p m dc ne sld ctx w1)
qed

theorem degradation_ladder_witness:
  "fst (saveContext (newLocalStorageService None (quotaOptions 100)) [] ''c1'' exampleContext)
      = [(''mcp-context-c1'', JSON (bareContext exampleContext))]
   \<and> last (snd (saveContext (newLocalStorageService None (quotaOptions 100)) [] ''c1'' exampleContext))
      = SavedWithoutDocumentContent
   \<and> fst (saveContext_chunking (newLocalStorageService_chunking None (quotaOptions 100)) [] ''c1'' exampleContext) = []
   \<and> last (snd (saveContext_chunking (newLocalStorageService_chunking None (quotaOptions 100)) [] ''c1'' exampleContext))
      = MinimalSaveFailed (DOMException ''QuotaExceededError'')
   \<and> fst (saveContext (newLocalStorageService None (quotaOptions 235)) [] ''c1'' longContext)
      = [(''mcp-context-c1'', JSON (minimalContext longContext))]
   \<and> last (snd (saveContext (newLocalStorageService None (quotaOptions 235)) [] ''c1'' longContext))
      = SavedReducedContent
   \<and> fst (saveContext_chunking (newLocalStorageService_chunking None (quotaOptions 235)) [] ''c1'' longContext)
      = [(''mcp_context_c1_minimal'', JSON (minimalContext_chunking longContext))]
   \<and> last (snd (saveContext_chunking (newLocalStorageService_chunking None (quotaOptions 235)) [] ''c1'' longContext))
      = SavedMinimal ''c1''"
proof -
  let ?A = "newLocalStorageService None (quotaOptions 100)"
  let ?B = "newLocalStorageService_chunking None (quotaOptions 100)"
  have sA: "storage ?A = Some (quotaStorage 100)" and pA: "keyPrefix ?A = ''mcp-context-''"
    by (simp_all add: newLocalStorageService_def quotaOptions_def)
  have sB: "storage ?B = Some (quotaStorage 100)" and pB: "keyPrefix ?B = ''mcp_context_''"
    by (simp_all add: newLocalStorageService_chunking_def quotaOptions_def)
  have w0: "setItem (quotaStorage 100) [] (keyPrefix ?A @ ''c1'') (JSON (prepareContextForStorage ?A exampleContext))
      = Inl (DOMException ''QuotaExceededError'')"
    by (simp add: pA prepare_example quotaStorage_def usedSpace_example)
  have w1: "setItem (quotaStorage 100) [] ''mcp-context-c1'' (JSON (minimalContext exampleContext))
      = Inl (DOMException ''QuotaExceededError'')"
    by (simp add: quotaStorage_def usedSpace_example_minimal)
  have w2: "setItem (quotaStorage 100) [] ''mcp-context-c1'' (JSON (bareContext exampleContext))
      = Inr [(''mcp-context-c1'', JSON (bareContext exampleContext))]"
    by (simp add: quotaStorage_def usedSpace_example_bare) (simp add: put_def)
  have w3: "setItem (quotaStorage 100) [] ''mcp_context_c1_minimal'' (JSON (minimalContext_chunking exampleContext))
      = Inl (DOMException ''QuotaExceededError'')"
    by (simp add: quotaStorage_def usedSpace_example_minimal_chunking)
  note t = degradation_ladder[OF sA w0 quota_error sB chunking_try_example quota_error]
  from t have small: "fst (saveContext ?A [] ''c1'' exampleContext) = [(''mcp-context-c1'', JSON (bareContext exampleContext))]
     \<and> last (snd (saveContext ?A [] ''c1'' exampleContext)) = SavedWithoutDocumentContent
     \<and> fst (saveContext_chunking ?B [] ''c1'' exampleContext) = []
     \<and> last (snd (saveContext_chunking ?B [] ''c1'' exampleContext)) = MinimalSaveFailed (DOMException ''QuotaExceededError'')"
    by (simp add: pA pB w1 w2 w3)
  let ?C = "newLocalStorageService None (quotaOptions 235)"
  let ?D = "newLocalStorageService_chunking None (quotaOptions 235)"
  have sC: "storage ?C = Some (quotaStorage 235)" and pC: "keyPrefix ?C = ''mcp-context-''"
    by (simp_all add: newLocalStorageService_def quotaOptions_def)
  have sD: "storage ?D = Some (quotaStorage 235)" and pD: "keyPrefix ?D = ''mcp_context_''"
    by (simp_all add: newLocalStorageService_chunking_def quotaOptions_def)
  have v0: "setItem (quotaStorage 235) [] (keyPrefix ?C @ ''c1'') (JSON (prepareContextForStorage ?C longContext))
      = Inl (DOMException ''QuotaExceededError'')"
    by (simp add: pC prepare_long quotaStorage_def usedSpace_long)
  have v1: "setItem (quotaStorage 235) [] ''mcp-context-c1'' (JSON (minimalContext longContext))
      = Inr [(''mcp-context-c1'', JSON (minimalContext longContext))]"
    by (simp add: quotaStorage_def usedSpace_long_minimal) (simp add: put_def)
  have v3: "setItem (quotaStorage 235) [] ''mcp_context_c1_minimal'' (JSON (minimalContext_chunking longContext))
      = Inr [(''mcp_context_c1_minimal'', JSON (minimalContext_chunking longContext))]"
    by (simp add: quotaStorage_def usedSpace_long_minimal_chunking) (simp add: put_def)
  note u = degradation_ladder[OF sC v0 quota_error sD chunking_try_long quota_error]
  from u have long: "fst (saveContext ?C [] ''c1'' longContext) = [(''mcp-context-c1'', JSON (minimalContext longContext))]
     \<and> last (snd (saveContext ?C [] ''c1'' longContext)) = SavedReducedContent
     \<and> fst (saveContext_chunking ?D [] ''c1'' longContext)
         = [(''mcp_context_c1_minimal'', JSON (minimalContext_chunking longContext))]
     \<and> last (snd (saveContext_chunking ?D [] ''c1'' longContext)) = SavedMinimal ''c1''"
    by (simp add: pC pD v1 v3)
  from small long show ?thesis by simp
qed

text \<open>
  The claim as stated fails in the chunking variant: with room for 100 characters the
  primary write and the placeholder write are rejected and the save is abandoned, although
  the write of the context without documents would have been accepted; it is never tried.
\<close>

theorem degradation_ladder_counterexample:
  "setItem (quotaStorage 100) [] ''mcp_context_c1'' (JSON exampleContext) = Inl (DOMException ''QuotaExceededError'')
   \<and> saveContext_chunking (newLocalStorageService_chunking None (quotaOptions 100)) [] ''c1'' exampleContext
       = ([], [ErrorSaving (DOMException ''QuotaExceededError''), MinimalSaveFailed (DOMException ''QuotaExceededError'')])
   \<and> setItem (quotaStorage 100) [] ''mcp_context_c1'' (JSON (bareContext exampleContext))
       = Inr [(''mcp_context_c1'', JSON (bareContext exampleContext))]"
proof -
  let ?B = "newLocalStorageService_chunking None (quotaOptions 100)"
  have sB: "storage ?B = Some (quotaStorage 100)" and pB: "keyPrefix ?B = ''mcp_context_''"
    by (simp_all add: newLocalStorageService_chunking_def quotaOptions_def)
  have w1: "setItem (quotaStorage 100) [] ''mcp_context_c1'' (JSON exampleContext) = Inl (DOMException ''QuotaExceededError'')"
    by (simp add: quotaStorage_def usedSpace_example)
  have w3: "setItem (quotaStorage 100) [] ''mcp_context_c1_minimal'' (JSON (minimalContext_chunking exampleContext))
      = Inl (DOMException ''QuotaExceededError'')"
    by (simp add: quotaStorage_def usedSpace_example_minimal_chunking)
  have w4: "setItem (quotaStorage 100) [] ''mcp_context_c1'' (JSON (bareContext exampleContext))
       = Inr [(''mcp_context_c1'', JSON (bareContext exampleContext))]"
    by (simp add: quotaStorage_def usedSpace_example_bare) (simp add: put_def)
  have "saveContext_chunking ?B [] ''c1'' exampleContext
       = ([], [ErrorSaving (DOMException ''QuotaExceededError''), MinimalSaveFailed (DOMException ''QuotaExceededError'')])"
    by (simp add: saveContext_chunking_def sB pB chunking_try_example quota_error w3)
  with w1 w4 show ?thesis by simp
qed

subsection \<open>Verification after a write\<close>

lemma find_distinct_key:
  assumes "distinct (map f xs)" and "i < length xs"
  shows "find (\<lambda>x. f x = f (xs ! i)) xs = Some (xs ! i)"
proof -
  have "\<forall>j<i. f (xs ! j) \<noteq> f (xs ! i)"
  proof (intro allI impI)
    fix j assume "j < i"
    then have "j < length (map f xs)" "i < length (map f xs)" "j \<noteq> i"
      using assms(2) by simp_all
    then have "map f xs ! j \<noteq> map f xs ! i"
      using assms(1) nth_eq_iff_index_eq[of "map f xs" j i] by blast
    then show "f (xs ! j) \<noteq> f (xs ! i)"
      using assms(2) \<open>j < i\<close> by simp
  qed
  then show ?thesis
    using assms(2) by (auto simp: find_Some_iff)
qed

lemma lengthMismatches_entries:
  "x \<in> set (lengthMismatches originalDocs savedDocs) \<Longrightarrow> x \<noteq> ContentLossDetected"
  by (auto simp: lengthMismatches_def split: option.splits if_splits)

lemma lengthMismatches_nonempty:
  "lengthMismatches originalDocs savedDocs \<noteq> [] \<longleftrightarrow>
     (\<exists>doc \<in> set savedDocs. \<exists>originalDoc.
        find (\<lambda>d. documentId d = documentId doc) originalDocs = Some originalDoc
        \<and> length (content originalDoc) \<noteq> length (content doc))"
  by (auto simp: lengthMismatches_def split: option.splits if_splits)

lemma lengthMismatches_positional:
  assumes "map documentId savedDocs = map documentId originalDocs"
    and "distinct (map documentId originalDocs)"
  shows "lengthMismatches originalDocs savedDocs \<noteq> [] \<longleftrightarrow>
     (\<exists>i<length originalDocs. length (content (savedDocs ! i)) \<noteq> length (content (originalDocs ! i)))"
proof -
  have len: "length savedDocs = length originalDocs"
    using assms(1) by (metis length_map)
  have ids: "documentId (savedDocs ! i) = documentId (originalDocs ! i)" if "i < length originalDocs" for i
    using assms(1) that len by (metis nth_map)
  have f: "find (\<lambda>d. documentId d = documentId (savedDocs ! i)) originalDocs = Some (originalDocs ! i)"
    if "i < length originalDocs" for i
    using find_distinct_key[OF assms(2) that] ids[OF that] by simp
  show ?thesis
  proof
    assume "lengthMismatches originalDocs savedDocs \<noteq> []"
    then obtain doc originalDoc where d: "doc \<in> set savedDocs"
      "find (\<lambda>d. documentId d = documentId doc) originalDocs = Some originalDoc"
      "length (content originalDoc) \<noteq> length (content doc)"
      unfolding lengthMismatches_nonempty by blast
    from d(1) obtain i where i: "i < length savedDocs" "doc = savedDocs ! i"
      by (metis in_set_conv_nth)
    then have "originalDoc = originalDocs ! i"
      using f[of i] d(2) len by simp
    then show "\<exists>i<length originalDocs. length (content (savedDocs ! i)) \<noteq> length (content (originalDocs ! i))"
      using i d(3) len by auto
  next
    assume "\<exists>i<length originalDocs. length (content (savedDocs ! i)) \<noteq> length (content (originalDocs ! i))"
    then obtain i where i: "i < length originalDocs"
      "length (content (savedDocs ! i)) \<noteq> length (content (originalDocs ! i))" by blast
    have "savedDocs ! i \<in> set savedDocs" using i(1) len by simp
    then show "lengthMismatches originalDocs savedDocs \<noteq> []"
      unfolding lengthMismatches_nonempty using f[OF i(1)] i(2) by fastforce
  qed
qed

lemma storeLargeDocuments_never_reads:
  "storeLargeDocuments (b\<lparr>getItem := g\<rparr>) maxSize baseKey st docs = storeLargeDocuments b maxSize baseKey st docs"
  by (induction docs arbitrary: st) (simp_all add: Let_def split: sum.splits prod.splits)

lemma saveContext_chunking_try_never_reads:
  "saveContext_chunking_try (svc\<lparr>storage := x\<rparr>) (b\<lparr>getItem := g\<rparr>) st convId context
     = saveContext_chunking_try svc b st convId context"
  by (simp add: saveContext_chunking_try_def storeLargeDocuments_never_reads Let_def)

lemma saveContext_chunking_never_reads:
  "saveContext_chunking (svc\<lparr>storage := Some (b\<lparr>getItem := g\<rparr>)\<rparr>) st convId context
     = saveContext_chunking (svc\<lparr>storage := Some b\<rparr>) st convId context"
proof -
  have "saveContext_chunking_try (svc\<lparr>storage := Some (b\<lparr>getItem := g\<rparr>)\<rparr>) (b\<lparr>getItem := g\<rparr>) st convId context
     = saveContext_chunking_try (svc\<lparr>storage := Some b\<rparr>) b st convId context"
    by (simp add: saveContext_chunking_try_def storeLargeDocuments_never_reads Let_def)
  then show ?thesis
    by (simp add: saveContext_chunking_def split: prod.splits option.splits sum.splits)
qed


lemma verifyStoredContext_parsed:
  assumes "getItem b st key = Some (JSON saved)" and "documentContext saved = Some savedDocs"
    and "documentContext original = Some originalDocs"
  shows "verifyStoredContext b st key original =
     Inr (if length originalDocs \<noteq> length savedDocs
          then [DocumentCountMismatch (length originalDocs) (length savedDocs)]
          else SavedWithDocuments (length savedDocs) # lengthMismatches originalDocs savedDocs
                 @ (if lengthMismatches originalDocs savedDocs \<noteq> [] then [ContentLossDetected] else []))"
  using assms by (simp add: verifyStoredContext_def missing_def JSON_parse_def Let_def)

lemma verifyStoredContext_no_list:
  assumes "getItem b st key = Some (JSON saved)" and "documentContext saved = None"
  shows "verifyStoredContext b st key original = Inr []"
  using assms by (simp add: verifyStoredContext_def missing_def JSON_parse_def Let_def)

lemma verifyStoredContext_missing:
  assumes "missing (getItem b st key)"
  shows "verifyStoredContext b st key original
     = Inl (Error (''Context was not saved properly: storage key '' @ key @ '' not found''))"
  using assms by (simp add: verifyStoredContext_def Let_def)

text \<open>
  C6, as amended. Truncating variant: when the context has a document and the backend
  accepts the write, \<open>saveContext\<close> makes no further write, whatever reading the key back
  gives. If the value read back is a context with a document list whose count differs from
  the count written, a count mismatch is on the console; if its documents carry the same,
  pairwise distinct ids as those written, content loss is on the console exactly when some
  document read back differs in content length from the document written (after
  truncation). If the value read back is a context with no document list, nothing is
  compared and the console holds the document sizes alone; if nothing (or the empty
  string) is read back, the console ends with the error and the save ends there. The
  chunking variant never reads back: its result is the same whatever \<open>getItem\<close> returns.
\<close>

theorem verification_read_back:
  "(storage svc = Some b \<and> documentContext context = Some docs \<and> docs \<noteq> [] \<and>
    setItem b st (keyPrefix svc @ convId) (JSON (prepareContextForStorage svc context)) = Inr st' \<longrightarrow>
      fst (saveContext svc st convId context) = st'
      \<and> (\<forall>saved savedDocs.
            getItem b st' (keyPrefix svc @ convId) = Some (JSON saved) \<and> documentContext saved = Some savedDocs \<longrightarrow>
              (length savedDocs \<noteq> length docs \<longrightarrow>
                 DocumentCountMismatch (length docs) (length savedDocs) \<in> set (snd (saveContext svc st convId context)))
            \<and> (map documentId savedDocs = map documentId docs \<and> distinct (map documentId docs) \<longrightarrow>
                 (ContentLossDetected \<in> set (snd (saveContext svc st convId context)) \<longleftrightarrow>
                    (\<exists>i<length docs. length (content (savedDocs ! i))
                         \<noteq> length (content (prepareDocument (maxDocumentSize svc) (docs ! i)))))))
      \<and> (\<forall>saved.
            getItem b st' (keyPrefix svc @ convId) = Some (JSON saved) \<and> documentContext saved = None \<longrightarrow>
              snd (saveContext svc st convId context)
                = [DocumentSizes (map (\<lambda>doc. (documentName doc, length (content doc)))
                     (map (prepareDocument (maxDocumentSize svc)) docs))])
      \<and> (missing (getItem b st' (keyPrefix svc @ convId)) \<longrightarrow>
            snd (saveContext svc st convId context)
              = [DocumentSizes (map (\<lambda>doc. (documentName doc, length (content doc)))
                     (map (prepareDocument (maxDocumentSize svc)) docs)),
                 ErrorSaving (Error (''Context was not saved properly: storage key '' @ keyPrefix svc @ convId
                     @ '' not found''))]))
   \<and> saveContext_chunking (svc'\<lparr>storage := Some (b'\<lparr>getItem := g\<rparr>)\<rparr>) s convId' context'
         = saveContext_chunking (svc'\<lparr>storage := Some b'\<rparr>) s convId' context'"
proof -
  let ?key = "keyPrefix svc @ convId"
  let ?p = "prepareContextForStorage svc context"
  let ?pdocs = "map (prepareDocument (maxDocumentSize svc)) docs"
  let ?out = "snd (saveContext svc st convId context)"
  let ?sizes = "DocumentSizes (map (\<lambda>doc. (documentName doc, length (content doc))) ?pdocs)"
  have A: "fst (saveContext svc st convId context) = st'
      \<and> (\<forall>saved savedDocs.
            getItem b st' ?key = Some (JSON saved) \<and> documentContext saved = Some savedDocs \<longrightarrow>
              (length savedDocs \<noteq> length docs \<longrightarrow>
                 DocumentCountMismatch (length docs) (length savedDocs) \<in> set ?out)
            \<and> (map documentId savedDocs = map documentId docs \<and> distinct (map documentId docs) \<longrightarrow>
                 (ContentLossDetected \<in> set ?out \<longleftrightarrow>
                    (\<exists>i<length docs. length (content (savedDocs ! i))
                         \<noteq> length (content (prepareDocument (maxDocumentSize svc) (docs ! i)))))))
      \<and> (\<forall>saved.
            getItem b st' ?key = Some (JSON saved) \<and> documentContext saved = None \<longrightarrow> ?out = [?sizes])
      \<and> (missing (getItem b st' ?key) \<longrightarrow>
            ?out = [?sizes, ErrorSaving (Error (''Context was not saved properly: storage key '' @ keyPrefix svc @ convId
                     @ '' not found''))])"
    if h: "storage svc = Some b" "documentContext context = Some docs" "docs \<noteq> []"
      "setItem b st ?key (JSON ?p) = Inr st'"
  proof -
    have pd: "documentContext ?p = Some ?pdocs"
      using h(2) by (simp add: prepareContextForStorage_def)
    have ids: "map documentId ?pdocs = map documentId docs"
      by (simp add: prepareDocument_def)
    have 1: "fst (saveContext svc st convId context) = st'"
      using saveContext_state_after_write[OF h] .
    have 2: "(length savedDocs \<noteq> length docs \<longrightarrow>
                 DocumentCountMismatch (length docs) (length savedDocs) \<in> set ?out)
            \<and> (map documentId savedDocs = map documentId docs \<and> distinct (map documentId docs) \<longrightarrow>
                 (ContentLossDetected \<in> set ?out \<longleftrightarrow>
                    (\<exists>i<length docs. length (content (savedDocs ! i))
                         \<noteq> length (content (prepareDocument (maxDocumentSize svc) (docs ! i))))))"
      if rb: "getItem b st' ?key = Some (JSON saved)" "documentContext saved = Some savedDocs"
      for saved savedDocs
    proof -
      let ?checks = "if length ?pdocs \<noteq> length savedDocs
            then [DocumentCountMismatch (length ?pdocs) (length savedDocs)]
            else SavedWithDocuments (length savedDocs) # lengthMismatches ?pdocs savedDocs
                   @ (if lengthMismatches ?pdocs savedDocs \<noteq> [] then [ContentLossDetected] else [])"
      have v: "verifyStoredContext b st' ?key ?p = Inr ?checks"
        using verifyStoredContext_parsed[OF rb pd] .
      have out: "?out = ?sizes # ?checks"
        using h(1) saveContext_try_written[OF h(2,3,4)] v pd
        by (simp add: saveContext_def)
      have a: "DocumentCountMismatch (length docs) (length savedDocs) \<in> set ?out"
        if "length savedDocs \<noteq> length docs"
        using that unfolding out by auto
      have b: "ContentLossDetected \<in> set ?out \<longleftrightarrow>
                    (\<exists>i<length docs. length (content (savedDocs ! i))
                         \<noteq> length (content (prepareDocument (maxDocumentSize svc) (docs ! i))))"
        if k: "map documentId savedDocs = map documentId docs" "distinct (map documentId docs)"
      proof -
        have len: "length savedDocs = length docs"
          using k(1) by (metis length_map)
        have "ContentLossDetected \<in> set ?out \<longleftrightarrow> lengthMismatches ?pdocs savedDocs \<noteq> []"
          unfolding out using len lengthMismatches_entries[of ContentLossDetected ?pdocs savedDocs]
          by auto
        also have "\<dots> \<longleftrightarrow> (\<exists>i<length ?pdocs. length (content (savedDocs ! i)) \<noteq> length (content (?pdocs ! i)))"
        proof -
          have h1: "map documentId savedDocs = map documentId ?pdocs"
            by (simp only: ids k(1))
          have h2: "distinct (map documentId ?pdocs)"
            by (simp only: ids k(2))
          show ?thesis
            using lengthMismatches_positional[OF h1 h2] .
        qed
        also have "\<dots> \<longleftrightarrow> (\<exists>i<length docs. length (content (savedDocs ! i))
                         \<noteq> length (content (prepareDocument (maxDocumentSize svc) (docs ! i))))"
          by auto
        finally show ?thesis .
      qed
      from a b show ?thesis by blast
    qed
    have 3: "?out = [?sizes]"
      if rb: "getItem b st' ?key = Some (JSON saved)" "documentContext saved = None" for saved
    proof -
      have v: "verifyStoredContext b st' ?key ?p = Inr []"
        using verifyStoredContext_no_list[OF rb] .
      show ?thesis
        using h(1) saveContext_try_written[OF h(2,3,4)] v pd
        by (simp add: saveContext_def)
    qed
    have 4: "?out = [?sizes, ErrorSaving (Error (''Context was not saved properly: storage key '' @ keyPrefix svc @ convId
                     @ '' not found''))]"
      if rb: "missing (getItem b st' ?key)"
    proof -
      have v: "verifyStoredContext b st' ?key ?p
          = Inl (Error (''Context was not saved properly: storage key '' @ ?key @ '' not found''))"
        using verifyStoredContext_missing[OF rb] .
      show ?thesis
        using h(1) saveContext_try_written[OF h(2,3,4)] v pd
        by (simp add: saveContext_def handleStorageError_def isQuotaExceeded_def)
    qed
    from 1 2 3 4 show ?thesis by blast
  qed
  have B: "saveContext_chunking (svc'\<lparr>storage := Some (b'\<lparr>getItem := g\<rparr>)\<rparr>) s convId' context'
         = saveContext_chunking (svc'\<lparr>storage := Some b'\<rparr>) s convId' context'"
    using saveContext_chunking_never_reads[where svc=svc' and b=b' and g=g] .
  from A B show ?thesis by blast
qed

lemma prepare_example_lossy:
  "prepareContextForStorage (newLocalStorageService None (lossyOptions damage)) exampleContext = exampleContext"
  by (simp add: prepareContextForStorage_def newLocalStorageService_def lossyOptions_def exampleContext_def
      exampleDocs_def prepareDocument_def)

lemma clipped_example: "clipped (JSON exampleContext) = JSON (exampleContext\<lparr>documentContext := Some clippedDocs\<rparr>)"
  by (simp add: clipped_def exampleContext_def exampleDocs_def clippedDocs_def)

lemma withoutLast_example:
  "withoutLastDocument (JSON exampleContext) = JSON (exampleContext\<lparr>documentContext := Some [hd exampleDocs]\<rparr>)"
  by (simp add: withoutLastDocument_def exampleContext_def exampleDocs_def)

lemma withoutDocuments_example:
  "withoutDocuments (JSON exampleContext) = JSON (exampleContext\<lparr>documentContext := None\<rparr>)"
  by (simp add: withoutDocuments_def)

theorem verification_read_back_witness:
  "fst (saveContext (newLocalStorageService None (lossyOptions clipped)) [] ''c1'' exampleContext)
      = [(''mcp-context-c1'', JSON (exampleContext\<lparr>documentContext := Some clippedDocs\<rparr>))]
   \<and> ContentLossDetected \<in> set (snd (saveContext (newLocalStorageService None (lossyOptions clipped)) [] ''c1'' exampleContext))
   \<and> DocumentCountMismatch 2 1
        \<in> set (snd (saveContext (newLocalStorageService None (lossyOptions withoutLastDocument)) [] ''c1'' exampleContext))
   \<and> saveContext (newLocalStorageService None (lossyOptions withoutDocuments)) [] ''c1'' exampleContext
        = ([(''mcp-context-c1'', JSON (exampleContext\<lparr>documentContext := None\<rparr>))],
           [DocumentSizes [(''one'', 4), (''two'', 5)]])"
proof -
  let ?C = "newLocalStorageService None (lossyOptions clipped)"
  let ?D = "newLocalStorageService None (lossyOptions withoutLastDocument)"
  let ?E = "newLocalStorageService None (lossyOptions withoutDocuments)"
  let ?stC = "[(''mcp-context-c1'', JSON (exampleContext\<lparr>documentContext := Some clippedDocs\<rparr>))]"
  let ?stD = "[(''mcp-context-c1'', JSON (exampleContext\<lparr>documentContext := Some [hd exampleDocs]\<rparr>))]"
  let ?stE = "[(''mcp-context-c1'', JSON (exampleContext\<lparr>documentContext := None\<rparr>))]"
  have sC: "storage ?C = Some (lossyStorage clipped)" and sD: "storage ?D = Some (lossyStorage withoutLastDocument)"
    and sE: "storage ?E = Some (lossyStorage withoutDocuments)"
    and pC: "keyPrefix ?C = ''mcp-context-''" and pD: "keyPrefix ?D = ''mcp-context-''"
    and pE: "keyPrefix ?E = ''mcp-context-''"
    and mC: "maxDocumentSize ?C = 1048576" and mE: "maxDocumentSize ?E = 1048576"
    by (simp_all add: newLocalStorageService_def lossyOptions_def)
  have dc: "documentContext exampleContext = Some exampleDocs" and ne: "exampleDocs \<noteq> []"
    by (simp_all add: exampleContext_def exampleDocs_def)
  have wC: "setItem (lossyStorage clipped) [] (keyPrefix ?C @ ''c1'') (JSON (prepareContextForStorage ?C exampleContext)) = Inr ?stC"
    by (simp add: pC prepare_example_lossy lossyStorage_def memoryStorage_def put_def clipped_example)
  have wD: "setItem (lossyStorage withoutLastDocument) [] (keyPrefix ?D @ ''c1'') (JSON (prepareContextForStorage ?D exampleContext)) = Inr ?stD"
    by (simp add: pD prepare_example_lossy lossyStorage_def memoryStorage_def put_def withoutLast_example)
  have wE: "setItem (lossyStorage withoutDocuments) [] (keyPrefix ?E @ ''c1'') (JSON (prepareContextForStorage ?E exampleContext)) = Inr ?stE"
    by (simp add: pE prepare_example_lossy lossyStorage_def memoryStorage_def put_def withoutDocuments_example)
  have rC: "getItem (lossyStorage clipped) ?stC (keyPrefix ?C @ ''c1'') = Some (JSON (exampleContext\<lparr>documentContext := Some clippedDocs\<rparr>))
      \<and> documentContext (exampleContext\<lparr>documentContext := Some clippedDocs\<rparr>) = Some clippedDocs"
    by (simp add: pC lossyStorage_def memoryStorage_def)
  have rD: "getItem (lossyStorage withoutLastDocument) ?stD (keyPrefix ?D @ ''c1'') = Some (JSON (exampleContext\<lparr>documentContext := Some [hd exampleDocs]\<rparr>))
      \<and> documentContext (exampleContext\<lparr>documentContext := Some [hd exampleDocs]\<rparr>) = Some [hd exampleDocs]"
    by (simp add: pD lossyStorage_def memoryStorage_def)
  have rE: "getItem (lossyStorage withoutDocuments) ?stE (keyPrefix ?E @ ''c1'') = Some (JSON (exampleContext\<lparr>documentContext := None\<rparr>))
      \<and> documentContext (exampleContext\<lparr>documentContext := None\<rparr>) = None"
    by (simp add: pE lossyStorage_def memoryStorage_def)
  note tC = verification_read_back[of "?C" "lossyStorage clipped" exampleContext exampleDocs "[]" "''c1''" "?stC",
        THEN conjunct1, THEN mp, OF conjI[OF sC conjI[OF dc conjI[OF ne wC]]]]
  note tD = verification_read_back[of "?D" "lossyStorage withoutLastDocument" exampleContext exampleDocs "[]" "''c1''" "?stD",
        THEN conjunct1, THEN mp, OF conjI[OF sD conjI[OF dc conjI[OF ne wD]]]]
  note tE = verification_read_back[of "?E" "lossyStorage withoutDocuments" exampleContext exampleDocs "[]" "''c1''" "?stE",
        THEN conjunct1, THEN mp, OF conjI[OF sE conjI[OF dc conjI[OF ne wE]]]]
  note cmpC = tC[THEN conjunct2, THEN conjunct1, rule_format, OF rC]
  note cmpD = tD[THEN conjunct2, THEN conjunct1, rule_format, OF rD]
  note cmpE = tE[THEN conjunct2, THEN conjunct2, THEN conjunct1, rule_format, OF rE]
  have idsC: "map documentId clippedDocs = map documentId exampleDocs \<and> distinct (map documentId exampleDocs)"
    by (simp add: clippedDocs_def exampleDocs_def)
  have diff: "\<exists>i<length exampleDocs. length (content (clippedDocs ! i))
                       \<noteq> length (content (prepareDocument (maxDocumentSize ?C) (exampleDocs ! i)))"
    by (rule exI[of _ 0]) (simp add: mC clippedDocs_def exampleDocs_def prepareDocument_def)
  have 1: "fst (saveContext ?C [] ''c1'' exampleContext) = ?stC"
    using tC by (rule conjunct1)
  have 2: "ContentLossDetected \<in> set (snd (saveContext ?C [] ''c1'' exampleContext))"
    using cmpC[THEN conjunct2, THEN mp, OF idsC] diff by (simp only:)
  have lenD: "length [hd exampleDocs] \<noteq> length exampleDocs"
    by (simp add: exampleDocs_def)
  have "DocumentCountMismatch (length exampleDocs) (length [hd exampleDocs])
        \<in> set (snd (saveContext ?D [] ''c1'' exampleContext))"
    using cmpD[THEN conjunct1, THEN mp, OF lenD] .
  moreover have "length exampleDocs = 2" and "length [hd exampleDocs] = 1"
    by (simp_all add: exampleDocs_def)
  ultimately have 3: "DocumentCountMismatch 2 1 \<in> set (snd (saveContext ?D [] ''c1'' exampleContext))"
    by (simp only:)
  have sizes: "map (\<lambda>doc. (documentName doc, length (content doc)))
                     (map (prepareDocument (maxDocumentSize ?E)) exampleDocs) = [(''one'', 4), (''two'', 5)]"
    by (simp add: mE exampleDocs_def prepareDocument_def)
  have "snd (saveContext ?E [] ''c1'' exampleContext) = [DocumentSizes [(''one'', 4), (''two'', 5)]]"
    using cmpE by (simp only: sizes)
  moreover have "fst (saveContext ?E [] ''c1'' exampleContext) = ?stE"
    using tE by (rule conjunct1)
  ultimately have 4: "saveContext ?E [] ''c1'' exampleContext = (?stE, [DocumentSizes [(''one'', 4), (''two'', 5)]])"
    by (simp add: prod_eq_iff)
  from 1 2 3 4 show ?thesis by (intro conjI)
qed

text \<open>
  The claim as stated fails in the chunking variant: on a backend that stores only the
  first character of each document's content, the save reports the context as saved and
  no fault, although the lengths stored are 1 and 1 where 4 and 5 were written.
\<close>

theorem verification_read_back_counterexample:
  "saveContext_chunking (newLocalStorageService_chunking None (lossyOptions clipped)) [] ''c1'' exampleContext
      = ([(''mcp_context_c1'', JSON (exampleContext\<lparr>documentContext := Some clippedDocs\<rparr>))],
         [ContextSaved ''c1'' ''mcp_context_c1''])
   \<and> map (\<lambda>d. length (content d)) clippedDocs = [1, 1]
   \<and> map (\<lambda>d. length (content d)) exampleDocs = [4, 5]"
proof -
  let ?B = "newLocalStorageService_chunking None (lossyOptions clipped)"
  have sB: "storage ?B = Some (lossyStorage clipped)" and pB: "keyPrefix ?B = ''mcp_context_''"
    and mB: "maxDocumentSize ?B = 1048576"
    by (simp_all add: newLocalStorageService_chunking_def lossyOptions_def)
  have dc: "documentContext exampleContext = Some exampleDocs" and ne: "exampleDocs \<noteq> []"
    by (simp_all add: exampleContext_def exampleDocs_def)
  have sld: "storeLargeDocuments (lossyStorage clipped) 1048576 ''mcp_context_c1'' [] exampleDocs = ([], [], Inr exampleDocs)"
    by (simp add: exampleDocs_def)
  have ctx: "exampleContext\<lparr>documentContext := Some exampleDocs\<rparr> = exampleContext"
    by (simp add: exampleContext_def)
  have w: "setItem (lossyStorage clipped) [] ''mcp_context_c1'' (JSON exampleContext)
      = Inr [(''mcp_context_c1'', JSON (exampleContext\<lparr>documentContext := Some clippedDocs\<rparr>))]"
    by (simp add: lossyStorage_def memoryStorage_def put_def clipped_example)
  have tr: "saveContext_chunking_try ?B (lossyStorage clipped) [] ''c1'' exampleContext
      = ([(''mcp_context_c1'', JSON (exampleContext\<lparr>documentContext := Some clippedDocs\<rparr>))],
         [ContextSaved ''c1'' ''mcp_context_c1''], None)"
    by (simp add: saveContext_chunking_try_def Let_def pB mB dc ne sld ctx w)
  have "saveContext_chunking ?B [] ''c1'' exampleContext
      = ([(''mcp_context_c1'', JSON (exampleContext\<lparr>documentContext := Some clippedDocs\<rparr>))],
         [ContextSaved ''c1'' ''mcp_context_c1''])"
    by (simp add: saveContext_chunking_def sB tr)
  then show ?thesis
    by (simp add: clippedDocs_def exampleDocs_def)
qed

subsection \<open>Duplicate documents\<close>

lemma hasDocument_iff: "hasDocument docId context \<longleftrightarrow> docId \<in> set (map documentId (contextDocuments context))"
  by (auto simp: hasDocument_def find_None_iff)

lemma spec_add_distinct:
  assumes "currentContext service = Some context"
    and "distinct (map documentId (contextDocuments context))"
    and "currentContext (fst (spec_addDocumentToContext docId docName docType docContent service)) = Some context'"
  shows "distinct (map documentId (contextDocuments context'))"
  using assms
  by (auto simp: spec_addDocumentToContext_def hasDocument_iff contextDocuments_def Let_def
      split: if_splits option.splits)

lemma spec_remove_distinct:
  assumes "currentContext service = Some context"
    and "distinct (map documentId (contextDocuments context))"
    and "currentContext (fst (spec_removeDocumentFromContext docId service)) = Some context'"
  shows "distinct (map documentId (contextDocuments context'))"
  using assms
  by (auto simp: spec_removeDocumentFromContext_def contextDocuments_def Let_def distinct_map_filter
      split: if_splits option.splits)

lemma client_add_distinct:
  assumes "\<forall>c. currentContext (contextService (fst world)) = Some c \<longrightarrow> distinct (map documentId (contextDocuments c))"
    and "currentContext (contextService (fst (fst
           (addDocumentToContext (specContextService svc st0) now docId docName docType docContent world)))) = Some c'"
  shows "distinct (map documentId (contextDocuments c'))"
proof (cases "docContent = []")
  case True
  then have "currentContext (contextService (fst world)) = Some c'"
    using assms(2) by (simp add: addDocumentToContext_def split: prod.splits)
  then show ?thesis using assms(1) by blast
next
  case False
  let ?service = "contextService (fst world)"
  have c: "currentContext (fst (spec_addDocumentToContext docId docName docType docContent ?service)) = Some c'"
    using assms(2) False
    by (simp add: addDocumentToContext_def specContextService_def split: prod.splits option.splits)
  show ?thesis
  proof (cases "currentContext ?service")
    case None
    then show ?thesis using c False by (simp add: spec_addDocumentToContext_def)
  next
    case (Some c0)
    then have "distinct (map documentId (contextDocuments c0))"
      using assms(1) by blast
    then show ?thesis
      using spec_add_distinct[OF Some _ c] by blast
  qed
qed

lemma client_remove_distinct:
  assumes "\<forall>c. currentContext (contextService (fst world)) = Some c \<longrightarrow> distinct (map documentId (contextDocuments c))"
    and "currentContext (contextService (fst (fst
           (removeDocumentFromContext (specContextService svc st0) now docId world)))) = Some c'"
  shows "distinct (map documentId (contextDocuments c'))"
proof -
  let ?service = "contextService (fst world)"
  have c: "currentContext (fst (spec_removeDocumentFromContext docId ?service)) = Some c'"
    using assms(2)
    by (simp add: removeDocumentFromContext_def specContextService_def
        split: prod.splits sum.splits if_splits)
  show ?thesis
  proof (cases "currentContext ?service")
    case None
    then show ?thesis using c by (simp add: spec_removeDocumentFromContext_def)
  next
    case (Some c0)
    then have "distinct (map documentId (contextDocuments c0))"
      using assms(1) by blast
    then show ?thesis
      using spec_remove_distinct[OF Some _ c] by blast
  qed
qed

lemma clientCalls_distinct:
  assumes "\<forall>c. currentContext (contextService (fst world)) = Some c \<longrightarrow> distinct (map documentId (contextDocuments c))"
  shows "\<forall>c'. currentContext (contextService (fst (clientCalls (specContextService svc st0) calls world))) = Some c'
           \<longrightarrow> distinct (map documentId (contextDocuments c'))"
  using assms
proof (induction calls arbitrary: world)
  case Nil
  then show ?case by simp
next
  case (Cons call calls)
  show ?case
  proof (cases call)
    case (AddDocument now docId docName docType docContent)
    let ?w = "fst (addDocumentToContext (specContextService svc st0) now docId docName docType docContent world)"
    have "\<forall>c. currentContext (contextService (fst ?w)) = Some c \<longrightarrow> distinct (map documentId (contextDocuments c))"
      using client_add_distinct[OF Cons.prems] by blast
    from Cons.IH[OF this] show ?thesis
      using AddDocument by simp
  next
    case (RemoveDocument now docId)
    let ?w = "fst (removeDocumentFromContext (specContextService svc st0) now docId world)"
    have "\<forall>c. currentContext (contextService (fst ?w)) = Some c \<longrightarrow> distinct (map documentId (contextDocuments c))"
      using client_remove_distinct[OF Cons.prems] by blast
    from Cons.IH[OF this] show ?thesis
      using RemoveDocument by simp
  qed
qed

text \<open>
  C3, on the context service modelled from the spec. When the current context already holds
  a document with the given id, the client's \<open>addDocumentToContext\<close> ends with an error
  and leaves the client, with the in-memory context and the backend of its context service,
  and the window unchanged. And the document ids stay unique: from a client whose current
  context, if it has one, has pairwise distinct document ids (the empty context of a new
  conversation is one), every run of adds and removes through the client leads to a
  context whose document ids are pairwise distinct.
\<close>

theorem duplicate_rejected:
  "(currentContext (contextService client) = Some context \<and> hasDocument docId context \<longrightarrow>
      addDocumentToContext (specContextService svc st0) now docId docName docType docContent (client, window)
        = ((client, window),
           Some (if docContent = [] then emptyContentError docName else Error ''DuplicateDocument'')))
   \<and> ((\<forall>c. currentContext (contextService client') = Some c \<longrightarrow> distinct (map documentId (contextDocuments c))) \<longrightarrow>
        (\<forall>calls c'.
           currentContext (contextService (fst (clientCalls (specContextService svc' st0') calls (client', window')))) = Some c'
             \<longrightarrow> distinct (map documentId (contextDocuments c'))))"
proof -
  have 1: "addDocumentToContext (specContextService svc st0) now docId docName docType docContent (client, window)
            = ((client, window),
               Some (if docContent = [] then emptyContentError docName else Error ''DuplicateDocument''))"
    if "currentContext (contextService client) = Some context" "hasDocument docId context"
    using that
    by (simp add: addDocumentToContext_def specContextService_def spec_addDocumentToContext_def)
  have 2: "distinct (map documentId (contextDocuments c'))"
    if "\<forall>c. currentContext (contextService client') = Some c \<longrightarrow> distinct (map documentId (contextDocuments c))"
      and "currentContext (contextService (fst (clientCalls (specContextService svc' st0') calls (client', window')))) = Some c'"
    for calls c'
    using clientCalls_distinct[where world="(client', window')" and svc=svc' and ?st0.0=st0' and calls=calls] that
    by simp
  from 1 2 show ?thesis by blast
qed

theorem duplicate_rejected_witness:
  "addDocumentToContext (specContextService (newLocalStorageService None defaultOptions) []) 7
      ''d1'' ''one again'' ''pdf'' ''other content'' (\<lparr>contextService = exampleService, initialized = True\<rparr>, Some exampleWindow)
     = ((\<lparr>contextService = exampleService, initialized = True\<rparr>, Some exampleWindow), Some (Error ''DuplicateDocument''))
   \<and> (\<exists>c'. currentContext (contextService (fst (clientCalls (specContextService (newLocalStorageService None defaultOptions) [])
          [AddDocument 1 ''d1'' ''one'' ''pdf'' ''abcd'', AddDocument 2 ''d2'' ''two'' ''txt'' ''abcde'',
           AddDocument 3 ''d1'' ''one again'' ''pdf'' ''other content'', RemoveDocument 4 ''d2'']
          (\<lparr>contextService = emptyService, initialized = True\<rparr>, Some exampleWindow)))) = Some c'
        \<and> map documentId (contextDocuments c') = [''d1'']
        \<and> distinct (map documentId (contextDocuments c')))"
proof -
  let ?cs = "specContextService (newLocalStorageService None defaultOptions) []"
  let ?calls = "[AddDocument 1 ''d1'' ''one'' ''pdf'' ''abcd'', AddDocument 2 ''d2'' ''two'' ''txt'' ''abcde'',
           AddDocument 3 ''d1'' ''one again'' ''pdf'' ''other content'', RemoveDocument 4 ''d2'']"
  let ?client = "\<lparr>contextService = emptyService, initialized = True\<rparr>"
  have s: "currentContext (contextService \<lparr>contextService = exampleService, initialized = True\<rparr>) = Some exampleContext"
    by (simp add: exampleService_def)
  have h: "hasDocument ''d1'' exampleContext"
    by (simp add: hasDocument_def contextDocuments_def exampleContext_def exampleDocs_def)
  have e: "\<forall>c. currentContext (contextService ?client) = Some c \<longrightarrow> distinct (map documentId (contextDocuments c))"
    by (simp add: emptyService_def contextDocuments_def)
  note t = duplicate_rejected[of "\<lparr>contextService = exampleService, initialized = True\<rparr>"
      exampleContext "''d1''" "newLocalStorageService None defaultOptions" "[]"
      7 "''one again''" "''pdf''" "''other content''" "Some exampleWindow"
      "?client" "newLocalStorageService None defaultOptions" "[]" "Some exampleWindow"]
  from t s h have 1: "addDocumentToContext ?cs 7
      ''d1'' ''one again'' ''pdf'' ''other content'' (\<lparr>contextService = exampleService, initialized = True\<rparr>, Some exampleWindow)
     = ((\<lparr>contextService = exampleService, initialized = True\<rparr>, Some exampleWindow), Some (Error ''DuplicateDocument''))"
    by simp
  from t e have d: "\<forall>c'. currentContext (contextService (fst (clientCalls ?cs ?calls (?client, Some exampleWindow)))) = Some c'
             \<longrightarrow> distinct (map documentId (contextDocuments c'))"
    by blast
  have "\<exists>c'. currentContext (contextService (fst (clientCalls ?cs ?calls (?client, Some exampleWindow)))) = Some c'
        \<and> map documentId (contextDocuments c') = [''d1'']"
    by (simp add: addDocumentToContext_def removeDocumentFromContext_def specContextService_def
        spec_addDocumentToContext_def spec_removeDocumentFromContext_def emptyService_def
        hasDocument_def contextDocuments_def Let_def)
  then obtain c' where c: "currentContext (contextService (fst (clientCalls ?cs ?calls (?client, Some exampleWindow)))) = Some c'"
    and i: "map documentId (contextDocuments c') = [''d1'']"
    by (elim exE conjE)
  have "distinct (map documentId (contextDocuments c'))"
    using d c by (elim allE impE)
  with c i have ids: "\<exists>c'. currentContext (contextService (fst (clientCalls ?cs ?calls (?client, Some exampleWindow)))) = Some c'
        \<and> map documentId (contextDocuments c') = [''d1'']
        \<and> distinct (map documentId (contextDocuments c'))"
    by (intro exI[of _ c'] conjI)
  from 1 ids show ?thesis by (rule conjI)
qed

subsection \<open>Saving and loading\<close>

lemma faithful_keepsOtherKeys: "faithful b \<Longrightarrow> keepsOtherKeys b"
  by (simp add: faithful_def)

lemma faithful_setItem: "faithful b \<Longrightarrow> setItem b st k v = Inr st' \<Longrightarrow> getItem b st' k = Some v"
  unfolding faithful_def by blast

lemma resolveDocRef_inline: "\<not> isDocRef (content doc) \<Longrightarrow> resolveDocRef b st doc = doc"
  by (simp add: resolveDocRef_def)

lemma resolveDocRef_stored:
  assumes "getItem b st docKey = Some (Raw (content doc))" and "content doc \<noteq> []"
  shows "resolveDocRef b st (doc\<lparr>content := docRefPrefix @ docKey\<rparr>) = doc"
  using assms
  by (simp add: resolveDocRef_def isDocRef_def docRefKey_def missing_def itemText_def docRefPrefix_def)

lemma storeLargeDocuments_resolve:
  assumes "faithful b"
    and "storeLargeDocuments b maxSize baseKey st docs = (st1, out, Inr docs')"
    and "distinct (map documentId docs)"
    and "\<forall>d \<in> set docs. of_nat (length (content d)) \<le> maxSize / 2 \<longrightarrow> \<not> isDocRef (content d)"
    and "\<forall>d \<in> set docs. getItem b st2 (baseKey @ ''_doc_'' @ documentId d) = getItem b st1 (baseKey @ ''_doc_'' @ documentId d)"
  shows "map (resolveDocRef b st2) docs' = docs"
  using assms(2-5)
proof (induction docs arbitrary: st docs' out)
  case Nil
  then show ?case by auto
next
  case (Cons doc docs)
  show ?case
  proof (cases "content doc \<noteq> [] \<and> of_nat (length (content doc)) > maxSize / 2")
    case False
    then obtain out0 ds' where rec: "storeLargeDocuments b maxSize baseKey st docs = (st1, out0, Inr ds')"
      and d': "docs' = doc # ds'"
      using Cons.prems(1)
      by (auto split: prod.splits simp: map_sum_def split: sum.splits)
    have inl: "\<not> isDocRef (content doc)"
      using False Cons.prems(3) by (auto simp: isDocRef_def)
    have "map (resolveDocRef b st2) ds' = docs"
      using Cons.IH[OF rec] Cons.prems(2,3,4) by auto
    then show ?thesis
      using d' inl by (simp add: resolveDocRef_inline)
  next
    case True
    let ?docKey = "baseKey @ ''_doc_'' @ documentId doc"
    obtain s' where w: "setItem b st ?docKey (Raw (content doc)) = Inr s'"
      using True Cons.prems(1) by (cases "setItem b st ?docKey (Raw (content doc))") (auto simp: Let_def)
    then obtain out0 ds' where rec: "storeLargeDocuments b maxSize baseKey s' docs = (st1, out0, Inr ds')"
      and d': "docs' = doc\<lparr>content := docRefPrefix @ ?docKey\<rparr> # ds'"
      using True Cons.prems(1)
      by (auto simp: Let_def map_sum_def split: prod.splits sum.splits)
    have other: "\<forall>d \<in> set docs. ?docKey \<noteq> baseKey @ ''_doc_'' @ documentId d"
      using Cons.prems(2) by auto
    have "getItem b st1 ?docKey = getItem b s' ?docKey"
      using storeLargeDocuments_other_keys[OF faithful_keepsOtherKeys[OF assms(1)] rec other] .
    also have "\<dots> = Some (Raw (content doc))"
      using faithful_setItem[OF assms(1) w] .
    finally have "getItem b st2 ?docKey = Some (Raw (content doc))"
      using Cons.prems(4) by simp
    then have r: "resolveDocRef b st2 (doc\<lparr>content := docRefPrefix @ ?docKey\<rparr>) = doc"
      using True by (simp add: resolveDocRef_stored)
    have "map (resolveDocRef b st2) ds' = docs"
      using Cons.IH[OF rec] Cons.prems(2,3,4) by auto
    then show ?thesis
      using d' r by simp
  qed
qed


lemma prepareContextForStorage_within_ceiling:
  assumes "\<forall>d \<in> set (contextDocuments context). content d \<noteq> [] \<and> of_nat (length (content d)) \<le> maxDocumentSize svc"
  shows "prepareContextForStorage svc context = context"
proof (cases "documentContext context")
  case None
  then show ?thesis by (simp add: prepareContextForStorage_def)
next
  case (Some docs)
  then have "map (prepareDocument (maxDocumentSize svc)) docs = docs"
    using assms by (auto simp: contextDocuments_def prepareDocument_unchanged intro: map_idI)
  then show ?thesis using Some by (simp add: prepareContextForStorage_def)
qed

lemma saveContext_state_written:
  assumes "storage svc = Some b"
    and "setItem b st (keyPrefix svc @ convId) (JSON (prepareContextForStorage svc context)) = Inr st'"
  shows "fst (saveContext svc st convId context) = st'"
proof (cases "case documentContext context of Some docs \<Rightarrow> docs \<noteq> [] | None \<Rightarrow> False")
  case True
  then obtain docs where "documentContext context = Some docs" "docs \<noteq> []"
    by (auto split: option.splits)
  then show ?thesis
    using saveContext_state_after_write[OF assms(1) _ _ assms(2)] by blast
next
  case False
  then show ?thesis
    using assms prepareContextForStorage_no_documents[OF False, of svc]
    by (simp add: saveContext_def saveContext_try_def Let_def)
qed

lemma loadContext_chunking_after_save:
  assumes "storage svc = Some b" and "faithful b"
    and "saveContext_chunking_try svc b st convId context = (st2, out, None)"
    and "distinct (map documentId (contextDocuments context))"
    and "\<forall>d \<in> set (contextDocuments context).
           of_nat (length (content d)) \<le> maxDocumentSize svc / 2 \<longrightarrow> \<not> isDocRef (content d)"
  shows "loadContext_chunking svc st2 convId = Some context"
proof (cases "case documentContext context of Some docs \<Rightarrow> docs \<noteq> [] | None \<Rightarrow> False")
  case False
  then have w: "setItem b st (keyPrefix svc @ convId) (JSON context) = Inr st2"
    using assms(3) by (auto simp: saveContext_chunking_try_def Let_def split: sum.splits)
  have g: "getItem b st2 (keyPrefix svc @ convId) = Some (JSON context)"
    using faithful_setItem[OF assms(2) w] .
  have "documentContext context = None \<or> documentContext context = Some []"
    using False by (auto split: option.splits)
  then show ?thesis
    using assms(1) g
    by (auto simp: loadContext_chunking_def Let_def missing_def JSON_parse_def)
next
  case True
  then obtain docs where dc: "documentContext context = Some docs" and ne: "docs \<noteq> []"
    by (auto split: option.splits)
  let ?key = "keyPrefix svc @ convId"
  obtain s1 out1 r where sld: "storeLargeDocuments b (maxDocumentSize svc) ?key st docs = (s1, out1, r)"
    by (metis prod_cases3)
  obtain docs' where r: "r = Inr docs'"
    and w: "setItem b s1 ?key (JSON (context\<lparr>documentContext := Some docs'\<rparr>)) = Inr st2"
    using assms(3) True dc sld
    by (cases r) (auto simp: saveContext_chunking_try_def Let_def split: sum.splits)
  have g: "getItem b st2 ?key = Some (JSON (context\<lparr>documentContext := Some docs'\<rparr>))"
    using faithful_setItem[OF assms(2) w] .
  have same: "\<forall>d \<in> set docs. getItem b st2 (?key @ ''_doc_'' @ documentId d) = getItem b s1 (?key @ ''_doc_'' @ documentId d)"
    using keepsOtherKeys_setItem[OF faithful_keepsOtherKeys[OF assms(2)] w] by simp
  have "map (resolveDocRef b st2) docs' = docs"
    using storeLargeDocuments_resolve[OF assms(2) sld[unfolded r] _ _ same] assms(4,5) dc
    by (simp add: contextDocuments_def)
  then show ?thesis
    using assms(1) g dc
    by (simp add: loadContext_chunking_def Let_def missing_def JSON_parse_def)
qed

text \<open>
  C1, as amended. Let the backend be available and faithful. Truncating variant: if every
  document has non-empty content no longer than the ceiling and the backend accepts the
  write of the context, \<open>loadContext\<close> after \<open>saveContext\<close> returns the context that was
  saved, so the same documents with identical content. Chunking variant: if the backend
  accepts every write of the save, the document ids are pairwise distinct and no document
  that stays inline (one no longer than half the ceiling) has a content that starts with
  the reference marker, \<open>loadContext\<close> after \<open>saveContext\<close> returns the context that was
  saved.
\<close>

theorem save_load_round_trip:
  "(storage svc = Some b \<and> faithful b \<and>
    (\<forall>d \<in> set (contextDocuments context). content d \<noteq> [] \<and> of_nat (length (content d)) \<le> maxDocumentSize svc) \<and>
    setItem b st (keyPrefix svc @ convId) (JSON context) = Inr st' \<longrightarrow>
      loadContext svc (fst (saveContext svc st convId context)) convId = Some context)
   \<and> (storage svc' = Some b' \<and> faithful b' \<and>
      saveContext_chunking_try svc' b' s convId' context' = (s', out, None) \<and>
      distinct (map documentId (contextDocuments context')) \<and>
      (\<forall>d \<in> set (contextDocuments context').
          of_nat (length (content d)) \<le> maxDocumentSize svc' / 2 \<longrightarrow> \<not> isDocRef (content d)) \<longrightarrow>
      loadContext_chunking svc' (fst (saveContext_chunking svc' s convId' context')) convId' = Some context')"
proof -
  have A: "loadContext svc (fst (saveContext svc st convId context)) convId = Some context"
    if h: "storage svc = Some b" "faithful b"
      "\<forall>d \<in> set (contextDocuments context). content d \<noteq> [] \<and> of_nat (length (content d)) \<le> maxDocumentSize svc"
      "setItem b st (keyPrefix svc @ convId) (JSON context) = Inr st'"
  proof -
    have p: "prepareContextForStorage svc context = context"
      using prepareContextForStorage_within_ceiling[OF h(3)] .
    have w: "setItem b st (keyPrefix svc @ convId) (JSON (prepareContextForStorage svc context)) = Inr st'"
      using h(4) p by simp
    have "fst (saveContext svc st convId context) = st'"
      using saveContext_state_written[OF h(1) w] .
    moreover have "getItem b st' (keyPrefix svc @ convId) = Some (JSON context)"
      using faithful_setItem[OF h(2) h(4)] .
    ultimately show ?thesis
      using loadContext_reads[OF h(1)] by simp
  qed
  have B: "loadContext_chunking svc' (fst (saveContext_chunking svc' s convId' context')) convId' = Some context'"
    if h: "storage svc' = Some b'" "faithful b'"
      "saveContext_chunking_try svc' b' s convId' context' = (s', out, None)"
      "distinct (map documentId (contextDocuments context'))"
      "\<forall>d \<in> set (contextDocuments context').
          of_nat (length (content d)) \<le> maxDocumentSize svc' / 2 \<longrightarrow> \<not> isDocRef (content d)"
  proof -
    have "fst (saveContext_chunking svc' s convId' context') = s'"
      using h(1,3) by (simp add: saveContext_chunking_def)
    then show ?thesis
      using loadContext_chunking_after_save[OF h] by simp
  qed
  from A B show ?thesis by blast
qed


lemma chunking_try_chunked_example:
  "saveContext_chunking_try (newLocalStorageService_chunking None chunkOptions) memoryStorage [] ''c1'' exampleContext
     = (put ''mcp_context_c1''
          (JSON (exampleContext\<lparr>documentContext := Some
             [\<lparr>documentId = ''d1'', documentName = ''one'', documentType = ''pdf'', content = ''abcd''\<rparr>,
              \<lparr>documentId = ''d2'', documentName = ''two'', documentType = ''txt'',
               content = ''__DOC_REF__mcp_context_c1_doc_d2''\<rparr>]\<rparr>))
          (put ''mcp_context_c1_doc_d2'' (Raw ''abcde'') []),
        [StoredSeparately ''two'' ''mcp_context_c1_doc_d2'', ContextSaved ''c1'' ''mcp_context_c1''], None)"
proof -
  let ?svc = "newLocalStorageService_chunking None chunkOptions"
  have p: "keyPrefix ?svc = ''mcp_context_''" and m: "maxDocumentSize ?svc = 9"
    by (simp_all add: newLocalStorageService_chunking_def chunkOptions_def)
  have dc: "documentContext exampleContext = Some exampleDocs" and ne: "exampleDocs \<noteq> []"
    by (simp_all add: exampleContext_def exampleDocs_def)
  have sld: "storeLargeDocuments memoryStorage 9 ''mcp_context_c1'' [] exampleDocs
      = (put ''mcp_context_c1_doc_d2'' (Raw ''abcde'') [],
         [StoredSeparately ''two'' ''mcp_context_c1_doc_d2''],
         Inr [\<lparr>documentId = ''d1'', documentName = ''one'', documentType = ''pdf'', content = ''abcd''\<rparr>,
              \<lparr>documentId = ''d2'', documentName = ''two'', documentType = ''txt'',
               content = ''__DOC_REF__mcp_context_c1_doc_d2''\<rparr>])"
    by (simp add: exampleDocs_def memoryStorage_def docRefPrefix_def Let_def)
  show ?thesis
    by (simp add: saveContext_chunking_try_def Let_def p m dc ne sld) (simp add: memoryStorage_def)
qed

theorem save_load_round_trip_witness:
  "loadContext (newLocalStorageService None defaultOptions)
      (fst (saveContext (newLocalStorageService None defaultOptions) [] ''c1'' exampleContext)) ''c1'' = Some exampleContext
   \<and> loadContext_chunking (newLocalStorageService_chunking None chunkOptions)
      (fst (saveContext_chunking (newLocalStorageService_chunking None chunkOptions) [] ''c1'' exampleContext)) ''c1''
      = Some exampleContext"
proof -
  let ?A = "newLocalStorageService None defaultOptions"
  let ?B = "newLocalStorageService_chunking None chunkOptions"
  have sA: "storage ?A = Some memoryStorage" and pA: "keyPrefix ?A = ''mcp-context-''"
    and mA: "maxDocumentSize ?A = 1048576"
    by (simp_all add: newLocalStorageService_def defaultOptions_def)
  have sB: "storage ?B = Some memoryStorage" and mB: "maxDocumentSize ?B = 9"
    by (simp_all add: newLocalStorageService_chunking_def chunkOptions_def)
  have cA: "\<forall>d \<in> set (contextDocuments exampleContext). content d \<noteq> [] \<and> of_nat (length (content d)) \<le> maxDocumentSize ?A"
    by (simp add: mA contextDocuments_def exampleContext_def exampleDocs_def)
  have wA: "setItem memoryStorage [] (keyPrefix ?A @ ''c1'') (JSON exampleContext)
      = Inr (put ''mcp-context-c1'' (JSON exampleContext) [])"
    by (simp add: pA memoryStorage_def)
  have dB: "distinct (map documentId (contextDocuments exampleContext))"
    by (simp add: contextDocuments_def exampleContext_def exampleDocs_def)
  have rB: "\<forall>d \<in> set (contextDocuments exampleContext).
           of_nat (length (content d)) \<le> maxDocumentSize ?B / 2 \<longrightarrow> \<not> isDocRef (content d)"
    by (simp add: mB contextDocuments_def exampleContext_def exampleDocs_def isDocRef_def docRefPrefix_def)
  from save_load_round_trip[of "?A" memoryStorage exampleContext "[]" "''c1''"
      "put ''mcp-context-c1'' (JSON exampleContext) []"
      "?B" memoryStorage "[]" "''c1''" exampleContext
      "put ''mcp_context_c1''
          (JSON (exampleContext\<lparr>documentContext := Some
             [\<lparr>documentId = ''d1'', documentName = ''one'', documentType = ''pdf'', content = ''abcd''\<rparr>,
              \<lparr>documentId = ''d2'', documentName = ''two'', documentType = ''txt'',
               content = ''__DOC_REF__mcp_context_c1_doc_d2''\<rparr>]\<rparr>))
          (put ''mcp_context_c1_doc_d2'' (Raw ''abcde'') [])"
      "[StoredSeparately ''two'' ''mcp_context_c1_doc_d2'', ContextSaved ''c1'' ''mcp_context_c1'']"]
    sA faithful_memoryStorage cA wA sB chunking_try_chunked_example dB rB
  show ?thesis by blast
qed

lemma saveContext_quota_example:
  "fst (saveContext (newLocalStorageService None (quotaOptions 100)) [] ''c1'' exampleContext)
      = [(''mcp-context-c1'', JSON (bareContext exampleContext))]"
proof -
  let ?A = "newLocalStorageService None (quotaOptions 100)"
  have sA: "storage ?A = Some (quotaStorage 100)" and pA: "keyPrefix ?A = ''mcp-context-''"
    by (simp_all add: newLocalStorageService_def quotaOptions_def)
  have w0: "setItem (quotaStorage 100) [] (keyPrefix ?A @ ''c1'') (JSON (prepareContextForStorage ?A exampleContext))
      = Inl (DOMException ''QuotaExceededError'')"
    by (simp add: pA prepare_example quotaStorage_def usedSpace_example)
  have w1: "setItem (quotaStorage 100) [] ''mcp-context-c1'' (JSON (minimalContext exampleContext))
      = Inl (DOMException ''QuotaExceededError'')"
    by (simp add: quotaStorage_def usedSpace_example_minimal)
  have w2: "setItem (quotaStorage 100) [] ''mcp-context-c1'' (JSON (bareContext exampleContext))
      = Inr [(''mcp-context-c1'', JSON (bareContext exampleContext))]"
    by (simp add: quotaStorage_def usedSpace_example_bare) (simp add: put_def)
  obtain out0 where "saveContext_try ?A (quotaStorage 100) [] ''c1'' exampleContext
      = ([], out0, Some (DOMException ''QuotaExceededError''))"
    using saveContext_try_rejected[OF w0] by blast
  then show ?thesis
    by (simp add: saveContext_def sA pA handleStorageError_def quota_error w1 w2)
qed

text \<open>
  The claim as stated fails. In the truncating variant, on a backend with room for 100
  characters, the context with two small documents is loaded back with no document at all.
  In the chunking variant, on a backend that accepts everything, a document whose content
  is \<open>__DOC_REF__x\<close> is loaded back with the content \<open>Content reference lost: x\<close>, and
  of two documents with the same id, both stored under keys of their own, the first is
  loaded back with the content of the second.
\<close>

theorem save_load_round_trip_counterexample:
  "list_all (\<lambda>d. content d \<noteq> [] \<and>
        of_nat (length (content d)) \<le> maxDocumentSize (newLocalStorageService None (quotaOptions 100))) exampleDocs
   \<and> loadContext (newLocalStorageService None (quotaOptions 100))
        (fst (saveContext (newLocalStorageService None (quotaOptions 100)) [] ''c1'' exampleContext)) ''c1''
       = Some (exampleContext\<lparr>documentContext := Some []\<rparr>)
   \<and> list_all (\<lambda>d. content d \<noteq> [] \<and>
        of_nat (length (content d)) \<le> maxDocumentSize (newLocalStorageService_chunking None defaultOptions)) refDocs
   \<and> loadContext_chunking (newLocalStorageService_chunking None defaultOptions)
        (fst (saveContext_chunking (newLocalStorageService_chunking None defaultOptions) [] ''c1'' refContext)) ''c1''
       = Some (refContext\<lparr>documentContext := Some
           [\<lparr>documentId = ''d1'', documentName = ''one'', documentType = ''txt'',
             content = ''Content reference lost: x''\<rparr>]\<rparr>)
   \<and> list_all (\<lambda>d. content d \<noteq> [] \<and>
        of_nat (length (content d)) \<le> maxDocumentSize (newLocalStorageService_chunking None chunkOptions)) twinDocs
   \<and> loadContext_chunking (newLocalStorageService_chunking None chunkOptions)
        (fst (saveContext_chunking (newLocalStorageService_chunking None chunkOptions) [] ''c1'' twinContext)) ''c1''
       = Some (twinContext\<lparr>documentContext := Some
           [\<lparr>documentId = ''d1'', documentName = ''one'', documentType = ''txt'', content = ''vwxyz''\<rparr>,
            \<lparr>documentId = ''d1'', documentName = ''two'', documentType = ''txt'', content = ''vwxyz''\<rparr>]\<rparr>)"
proof -
  let ?A = "newLocalStorageService None (quotaOptions 100)"
  let ?B = "newLocalStorageService_chunking None defaultOptions"
  let ?C = "newLocalStorageService_chunking None chunkOptions"
  have sA: "storage ?A = Some (quotaStorage 100)" and pA: "keyPrefix ?A = ''mcp-context-''"
    and mA: "maxDocumentSize ?A = 1048576"
    by (simp_all add: newLocalStorageService_def quotaOptions_def)
  have 1: "list_all (\<lambda>d. content d \<noteq> [] \<and> of_nat (length (content d)) \<le> maxDocumentSize ?A) exampleDocs"
    by (simp add: mA exampleDocs_def)
  have 2: "loadContext ?A (fst (saveContext ?A [] ''c1'' exampleContext)) ''c1''
       = Some (exampleContext\<lparr>documentContext := Some []\<rparr>)"
    unfolding saveContext_quota_example
    by (simp add: loadContext_def sA pA quotaStorage_def memoryStorage_def missing_def JSON_parse_def bareContext_def)
  have sB: "storage ?B = Some memoryStorage" and pB: "keyPrefix ?B = ''mcp_context_''"
    and mB: "maxDocumentSize ?B = 1048576"
    by (simp_all add: newLocalStorageService_chunking_def defaultOptions_def)
  have 3: "list_all (\<lambda>d. content d \<noteq> [] \<and> of_nat (length (content d)) \<le> maxDocumentSize ?B) refDocs"
    by (simp add: mB refDocs_def)
  have dc: "documentContext refContext = Some refDocs" and ne: "refDocs \<noteq> []"
    by (simp_all add: refContext_def refDocs_def)
  have sld: "storeLargeDocuments memoryStorage 1048576 ''mcp_context_c1'' [] refDocs = ([], [], Inr refDocs)"
    by (simp add: refDocs_def)
  have ctx: "refContext\<lparr>documentContext := Some refDocs\<rparr> = refContext"
    by (simp add: refContext_def)
  have tr: "saveContext_chunking_try ?B memoryStorage [] ''c1'' refContext
      = ([(''mcp_context_c1'', JSON refContext)], [ContextSaved ''c1'' ''mcp_context_c1''], None)"
    by (simp add: saveContext_chunking_try_def Let_def pB mB dc ne sld ctx) (simp add: memoryStorage_def put_def)
  have sv: "fst (saveContext_chunking ?B [] ''c1'' refContext) = [(''mcp_context_c1'', JSON refContext)]"
    by (simp add: saveContext_chunking_def sB tr)
  have rs: "map (resolveDocRef memoryStorage [(''mcp_context_c1'', JSON refContext)]) refDocs
      = [\<lparr>documentId = ''d1'', documentName = ''one'', documentType = ''txt'',
             content = ''Content reference lost: x''\<rparr>]"
    by (simp add: refDocs_def resolveDocRef_def isDocRef_def docRefPrefix_def docRefKey_def memoryStorage_def
        missing_def Let_def)
  have 4: "loadContext_chunking ?B (fst (saveContext_chunking ?B [] ''c1'' refContext)) ''c1''
       = Some (refContext\<lparr>documentContext := Some
           [\<lparr>documentId = ''d1'', documentName = ''one'', documentType = ''txt'',
             content = ''Content reference lost: x''\<rparr>]\<rparr>)"
  proof -
    have g: "getItem memoryStorage [(''mcp_context_c1'', JSON refContext)] ''mcp_context_c1'' = Some (JSON refContext)"
      by (simp add: memoryStorage_def)
    show ?thesis
      unfolding sv
      by (simp add: loadContext_chunking_def Let_def sB pB g missing_def JSON_parse_def dc rs)
  qed
  have sC: "storage ?C = Some memoryStorage" and pC: "keyPrefix ?C = ''mcp_context_''"
    and mC: "maxDocumentSize ?C = 9"
    by (simp_all add: newLocalStorageService_chunking_def chunkOptions_def)
  have 5: "list_all (\<lambda>d. content d \<noteq> [] \<and> of_nat (length (content d)) \<le> maxDocumentSize ?C) twinDocs"
    by (simp add: mC twinDocs_def)
  let ?refs = "[\<lparr>documentId = ''d1'', documentName = ''one'', documentType = ''txt'',
                  content = ''__DOC_REF__mcp_context_c1_doc_d1''\<rparr>,
                \<lparr>documentId = ''d1'', documentName = ''two'', documentType = ''txt'',
                  content = ''__DOC_REF__mcp_context_c1_doc_d1''\<rparr>]"
  let ?stC = "[(''mcp_context_c1'', JSON (twinContext\<lparr>documentContext := Some ?refs\<rparr>)),
               (''mcp_context_c1_doc_d1'', Raw ''vwxyz'')]"
  have dcC: "documentContext twinContext = Some twinDocs" and neC: "twinDocs \<noteq> []"
    by (simp_all add: twinContext_def twinDocs_def)
  have sldC: "storeLargeDocuments memoryStorage 9 ''mcp_context_c1'' [] twinDocs
      = ([(''mcp_context_c1_doc_d1'', Raw ''vwxyz'')],
         [StoredSeparately ''one'' ''mcp_context_c1_doc_d1'', StoredSeparately ''two'' ''mcp_context_c1_doc_d1''],
         Inr ?refs)"
    by (simp add: twinDocs_def memoryStorage_def docRefPrefix_def Let_def put_def)
  have trC: "saveContext_chunking_try ?C memoryStorage [] ''c1'' twinContext
      = (?stC, [StoredSeparately ''one'' ''mcp_context_c1_doc_d1'', StoredSeparately ''two'' ''mcp_context_c1_doc_d1'',
                ContextSaved ''c1'' ''mcp_context_c1''], None)"
    by (simp add: saveContext_chunking_try_def Let_def pC mC dcC neC sldC) (simp add: memoryStorage_def put_def)
  have svC: "fst (saveContext_chunking ?C [] ''c1'' twinContext) = ?stC"
    by (simp add: saveContext_chunking_def sC trC)
  have rsC: "map (resolveDocRef memoryStorage ?stC) ?refs
      = [\<lparr>documentId = ''d1'', documentName = ''one'', documentType = ''txt'', content = ''vwxyz''\<rparr>,
         \<lparr>documentId = ''d1'', documentName = ''two'', documentType = ''txt'', content = ''vwxyz''\<rparr>]"
    by (simp add: resolveDocRef_def isDocRef_def docRefPrefix_def docRefKey_def memoryStorage_def
        missing_def itemText_def Let_def)
  have 6: "loadContext_chunking ?C (fst (saveContext_chunking ?C [] ''c1'' twinContext)) ''c1''
       = Some (twinContext\<lparr>documentContext := Some
           [\<lparr>documentId = ''d1'', documentName = ''one'', documentType = ''txt'', content = ''vwxyz''\<rparr>,
            \<lparr>documentId = ''d1'', documentName = ''two'', documentType = ''txt'', content = ''vwxyz''\<rparr>]\<rparr>)"
  proof -
    have g: "getItem memoryStorage ?stC ''mcp_context_c1'' = Some (JSON (twinContext\<lparr>documentContext := Some ?refs\<rparr>))"
      by (simp add: memoryStorage_def)
    have d: "documentContext (twinContext\<lparr>documentContext := Some ?refs\<rparr>) = Some ?refs"
      by simp
    show ?thesis
      unfolding svC using rsC
      by (simp add: loadContext_chunking_def Let_def sC pC g missing_def JSON_parse_def d)
  qed
  from 1 2 3 4 5 6 show ?thesis by blast
qed

subsection \<open>The truncation boundary\<close>

lemma substring0_whole: "substring0 (of_nat n) s = take n s"
  by (simp add: substring0_def)

lemma saveContext_persists_prepared:
  assumes "storage svc = Some b" and "faithful b"
    and "documentContext context = Some docs" and "docs \<noteq> []"
    and "setItem b st (keyPrefix svc @ convId) (JSON (prepareContextForStorage svc context)) = Inr st'"
  shows "fst (saveContext svc st convId context) = st'
     \<and> loadContext svc st' convId = Some (prepareContextForStorage svc context)"
proof -
  have "fst (saveContext svc st convId context) = st'"
    using saveContext_state_after_write[OF assms(1,3,4,5)] .
  moreover have "getItem b st' (keyPrefix svc @ convId) = Some (JSON (prepareContextForStorage svc context))"
    using faithful_setItem[OF assms(2,5)] .
  then have "loadContext svc st' convId = Some (prepareContextForStorage svc context)"
    using loadContext_reads[OF assms(1)] by simp
  ultimately show ?thesis by simp
qed

text \<open>
  C5, as amended. Truncating variant, for a service built by the constructor. The context
  that \<open>saveContext\<close> prepares for its first write holds one entry per document passed in:
  an entry whose content length equals the ceiling is the document unmodified; an entry
  whose content is not empty and longer than the ceiling holds the first characters of the
  content, as many as the whole part of the ceiling (none for a negative ceiling), followed
  by a line break and \<open>[CONTENT TRUNCATED DUE TO SIZE LIMITATIONS]\<close>; an entry with empty
  content holds \<open>[No content available]\<close> instead. The other fields are unchanged. This
  prepared context is what is persisted when the backend is faithful and accepts that
  write: it is what \<open>loadContext\<close> reads back.
\<close>

theorem truncation_boundary:
  assumes "svc = newLocalStorageService localStorage options"
    and "documentContext context = Some docs" and "i < length docs"
  shows "(\<exists>stored.
       documentContext (prepareContextForStorage svc context) = Some stored \<and> length stored = length docs \<and>
       (of_nat (length (content (docs ! i))) = maxDocumentSize svc \<longrightarrow> stored ! i = docs ! i) \<and>
       (content (docs ! i) \<noteq> [] \<and> of_nat (length (content (docs ! i))) > maxDocumentSize svc \<longrightarrow>
          stored ! i = (docs ! i)\<lparr>content := take (nat \<lfloor>maxDocumentSize svc\<rfloor>) (content (docs ! i))
                                     @ CHR 0x0A # ''[CONTENT TRUNCATED DUE TO SIZE LIMITATIONS]''\<rparr>) \<and>
       (content (docs ! i) = [] \<longrightarrow> stored ! i = (docs ! i)\<lparr>content := ''[No content available]''\<rparr>))
    \<and> (\<forall>b st st'.
          storage svc = Some b \<and> faithful b \<and>
          setItem b st (keyPrefix svc @ convId) (JSON (prepareContextForStorage svc context)) = Inr st' \<longrightarrow>
            fst (saveContext svc st convId context) = st' \<and>
            loadContext svc st' convId = Some (prepareContextForStorage svc context))"
proof -
  let ?p = "prepareContextForStorage svc context"
  let ?m = "maxDocumentSize svc"
  let ?stored = "map (prepareDocument ?m) docs"
  have ne: "docs \<noteq> []" using assms(3) by auto
  have docs: "documentContext ?p = Some ?stored"
    using assms(2) by (simp add: prepareContextForStorage_def)
  have nz: "?m \<noteq> 0"
    using assms(1) maxDocumentSize_nonzero by simp
  have eq: "of_nat (length (content (docs ! i))) = ?m \<longrightarrow> ?stored ! i = docs ! i"
  proof
    assume e: "of_nat (length (content (docs ! i))) = ?m"
    then have "content (docs ! i) \<noteq> []"
      using nz by auto
    then show "?stored ! i = docs ! i"
      using assms(3) e by (simp add: prepareDocument_unchanged)
  qed
  have gt: "content (docs ! i) \<noteq> [] \<and> of_nat (length (content (docs ! i))) > ?m \<longrightarrow>
      ?stored ! i = (docs ! i)\<lparr>content := take (nat \<lfloor>?m\<rfloor>) (content (docs ! i))
                                     @ CHR 0x0A # ''[CONTENT TRUNCATED DUE TO SIZE LIMITATIONS]''\<rparr>"
    using assms(3) by (simp add: prepareDocument_truncated)
  have em: "content (docs ! i) = [] \<longrightarrow> ?stored ! i = (docs ! i)\<lparr>content := ''[No content available]''\<rparr>"
    using assms(3) by (simp add: prepareDocument_empty)
  have persisted: "fst (saveContext svc st convId context) = st' \<and> loadContext svc st' convId = Some ?p"
    if h: "storage svc = Some b" "faithful b"
      "setItem b st (keyPrefix svc @ convId) (JSON ?p) = Inr st'" for b st st'
    using saveContext_persists_prepared[OF h(1,2) assms(2) ne h(3)] .
  have first: "\<exists>stored.
       documentContext ?p = Some stored \<and> length stored = length docs \<and>
       (of_nat (length (content (docs ! i))) = ?m \<longrightarrow> stored ! i = docs ! i) \<and>
       (content (docs ! i) \<noteq> [] \<and> of_nat (length (content (docs ! i))) > ?m \<longrightarrow>
          stored ! i = (docs ! i)\<lparr>content := take (nat \<lfloor>?m\<rfloor>) (content (docs ! i))
                                     @ CHR 0x0A # ''[CONTENT TRUNCATED DUE TO SIZE LIMITATIONS]''\<rparr>) \<and>
       (content (docs ! i) = [] \<longrightarrow> stored ! i = (docs ! i)\<lparr>content := ''[No content available]''\<rparr>)"
    using docs eq gt em by simp
  from first persisted show ?thesis by blast
qed

theorem truncation_boundary_witness:
  "\<exists>persisted stored.
      loadContext (newLocalStorageService None smallOptions)
        (fst (saveContext (newLocalStorageService None smallOptions) [] ''c1'' exampleContext)) ''c1'' = Some persisted \<and>
      documentContext persisted = Some stored \<and>
      content (stored ! 0) = ''abcd'' \<and>
      content (stored ! 1) = ''abcd'' @ CHR 0x0A # ''[CONTENT TRUNCATED DUE TO SIZE LIMITATIONS]''"
proof -
  let ?svc = "newLocalStorageService None smallOptions"
  let ?p = "prepareContextForStorage ?svc exampleContext"
  let ?st' = "put ''mcp-context-c1'' (JSON ?p) []"
  have h2: "storage ?svc = Some memoryStorage"
    by (simp add: newLocalStorageService_def smallOptions_def)
  have h4: "documentContext exampleContext = Some exampleDocs"
    by (simp add: exampleContext_def)
  have h6: "setItem memoryStorage [] (keyPrefix ?svc @ ''c1'') (JSON ?p) = Inr ?st'"
    by (simp add: memoryStorage_def newLocalStorageService_def smallOptions_def)
  have m: "maxDocumentSize ?svc = 4"
    by (simp add: newLocalStorageService_def smallOptions_def)
  have len0: "0 < length exampleDocs" and len1: "1 < length exampleDocs"
    by (simp_all add: exampleDocs_def)
  note t0 = truncation_boundary[OF refl h4 len0, of None smallOptions "''c1''"]
  note t1 = truncation_boundary[OF refl h4 len1, of None smallOptions "''c1''"]
  from t0 h2 h6 faithful_memoryStorage
  have ld: "loadContext ?svc (fst (saveContext ?svc [] ''c1'' exampleContext)) ''c1'' = Some ?p"
    by metis
  from t0 t1 obtain stored where s: "documentContext ?p = Some stored"
    "of_nat (length (content (exampleDocs ! 0))) = maxDocumentSize ?svc \<longrightarrow> stored ! 0 = exampleDocs ! 0"
    "content (exampleDocs ! 1) \<noteq> [] \<and> of_nat (length (content (exampleDocs ! 1))) > maxDocumentSize ?svc \<longrightarrow>
       stored ! 1 = (exampleDocs ! 1)\<lparr>content := take (nat \<lfloor>maxDocumentSize ?svc\<rfloor>) (content (exampleDocs ! 1))
                                     @ CHR 0x0A # ''[CONTENT TRUNCATED DUE TO SIZE LIMITATIONS]''\<rparr>"
    by auto
  have "content (stored ! 0) = ''abcd''"
    and "content (stored ! 1) = ''abcd'' @ CHR 0x0A # ''[CONTENT TRUNCATED DUE TO SIZE LIMITATIONS]''"
    using s(2,3) by (simp_all add: m exampleDocs_def)
  with ld s(1) show ?thesis by blast
qed

text \<open>
  The claim as stated fails. On a backend with room for 235 characters, a document whose
  content has exactly as many characters as the ceiling, 70, is not persisted unmodified:
  the write of the prepared context is rejected and what is persisted, and loaded back,
  holds the placeholder of the reduced write in place of the content. And with the ceiling
  4.5, a document of 6 characters is persisted as its first 4 characters and the marker.
\<close>

theorem truncation_boundary_counterexample:
  "of_nat (length (content (hd longDocs))) = maxDocumentSize (newLocalStorageService None (ceilingOptions 235 70))
   \<and> loadContext (newLocalStorageService None (ceilingOptions 235 70))
        (fst (saveContext (newLocalStorageService None (ceilingOptions 235 70)) [] ''c1'' longContext)) ''c1''
       = Some (longContext\<lparr>documentContext := Some
           [\<lparr>documentId = ''d1'', documentName = ''one'', documentType = ''pdf'',
             content = ''[Content removed due to storage limitations. Document: one]''\<rparr>]\<rparr>)
   \<and> maxDocumentSize (newLocalStorageService None fractionOptions) = 9 / 2
   \<and> loadContext (newLocalStorageService None fractionOptions)
        (fst (saveContext (newLocalStorageService None fractionOptions) [] ''c1'' sixContext)) ''c1''
       = Some (sixContext\<lparr>documentContext := Some
           [\<lparr>documentId = ''d1'', documentName = ''one'', documentType = ''txt'',
             content = ''abcd'' @ CHR 0x0A # ''[CONTENT TRUNCATED DUE TO SIZE LIMITATIONS]''\<rparr>]\<rparr>)"
proof -
  let ?A = "newLocalStorageService None (ceilingOptions 235 70)"
  let ?F = "newLocalStorageService None fractionOptions"
  have sA: "storage ?A = Some (quotaStorage 235)" and pA: "keyPrefix ?A = ''mcp-context-''"
    and mA: "maxDocumentSize ?A = 70"
    by (simp_all add: newLocalStorageService_def ceilingOptions_def)
  have len: "length (content (hd longDocs)) = 70"
    by (simp add: longDocs_def)
  have 1: "of_nat (length (content (hd longDocs))) = maxDocumentSize ?A"
    by (simp add: len mA)
  have "\<forall>d \<in> set (contextDocuments longContext). content d \<noteq> [] \<and> of_nat (length (content d)) \<le> maxDocumentSize ?A"
    using 1 by (simp add: contextDocuments_def longContext_def longDocs_def)
  then have pr: "prepareContextForStorage ?A longContext = longContext"
    by (rule prepareContextForStorage_within_ceiling)
  have w0: "setItem (quotaStorage 235) [] (keyPrefix ?A @ ''c1'') (JSON (prepareContextForStorage ?A longContext))
      = Inl (DOMException ''QuotaExceededError'')"
    by (simp add: pA pr quotaStorage_def usedSpace_long)
  have w1: "setItem (quotaStorage 235) [] ''mcp-context-c1'' (JSON (minimalContext longContext))
      = Inr [(''mcp-context-c1'', JSON (minimalContext longContext))]"
    by (simp add: quotaStorage_def usedSpace_long_minimal) (simp add: put_def)
  obtain out0 where "saveContext_try ?A (quotaStorage 235) [] ''c1'' longContext
      = ([], out0, Some (DOMException ''QuotaExceededError''))"
    using saveContext_try_rejected[OF w0] by blast
  then have sv: "fst (saveContext ?A [] ''c1'' longContext) = [(''mcp-context-c1'', JSON (minimalContext longContext))]"
    by (simp add: saveContext_def sA pA handleStorageError_def quota_error w1)
  have mc: "minimalContext longContext = longContext\<lparr>documentContext := Some
           [\<lparr>documentId = ''d1'', documentName = ''one'', documentType = ''pdf'',
             content = ''[Content removed due to storage limitations. Document: one]''\<rparr>]\<rparr>"
    by (simp add: minimalContext_def removedContentPlaceholder_def longContext_def longDocs_def)
  have 2: "loadContext ?A (fst (saveContext ?A [] ''c1'' longContext)) ''c1''
       = Some (longContext\<lparr>documentContext := Some
           [\<lparr>documentId = ''d1'', documentName = ''one'', documentType = ''pdf'',
             content = ''[Content removed due to storage limitations. Document: one]''\<rparr>]\<rparr>)"
    unfolding sv
    by (simp add: loadContext_def sA pA quotaStorage_def memoryStorage_def missing_def JSON_parse_def mc)
  have sF: "storage ?F = Some memoryStorage" and pF: "keyPrefix ?F = ''mcp-context-''"
    and 3: "maxDocumentSize ?F = 9 / 2"
    by (simp_all add: newLocalStorageService_def fractionOptions_def)
  have dcF: "documentContext sixContext = Some sixDocs" and neF: "sixDocs \<noteq> []"
    by (simp_all add: sixContext_def sixDocs_def)
  have "\<lfloor>9 / 2 :: rat\<rfloor> = 4"
    by (rule floor_unique) simp_all
  then have fl: "nat \<lfloor>9 / 2 :: rat\<rfloor> = 4"
    by simp
  have prF: "prepareContextForStorage ?F sixContext = sixContext\<lparr>documentContext := Some
           [\<lparr>documentId = ''d1'', documentName = ''one'', documentType = ''txt'',
             content = ''abcd'' @ CHR 0x0A # ''[CONTENT TRUNCATED DUE TO SIZE LIMITATIONS]''\<rparr>]\<rparr>"
    by (simp add: prepareContextForStorage_def 3 prepareDocument_def substring0_def truncationMarker_def fl
        sixContext_def sixDocs_def)
  have wF: "setItem memoryStorage [] (keyPrefix ?F @ ''c1'') (JSON (prepareContextForStorage ?F sixContext))
      = Inr (put ''mcp-context-c1'' (JSON (prepareContextForStorage ?F sixContext)) [])"
    by (simp add: memoryStorage_def pF)
  have 4: "loadContext ?F (fst (saveContext ?F [] ''c1'' sixContext)) ''c1''
       = Some (sixContext\<lparr>documentContext := Some
           [\<lparr>documentId = ''d1'', documentName = ''one'', documentType = ''txt'',
             content = ''abcd'' @ CHR 0x0A # ''[CONTENT TRUNCATED DUE TO SIZE LIMITATIONS]''\<rparr>]\<rparr>)"
    using saveContext_persists_prepared[OF sF faithful_memoryStorage dcF neF wF] prF by simp
  from 1 2 3 4 show ?thesis by blast
qed

end
